theory Spec2Isabelle
  imports
    Main
    "HOL-Library.Word"
    "HOL-Library.Signed_Division"
    "HOL-Library.AList"
    "HOL-Library.Multiset"
begin

section \<open>The workspace of caffe2/core/workspace.cc\<close>

text \<open>
  A workspace owns named blobs and named nets through \<open>unique_ptr\<close>s held in two
  maps, and may point to a parent workspace (\<open>shared\<close>) that it only reads.
  The objects live in an explicit store indexed by address, so that two lookups
  returning the same object are recognisable as such; the maps hold addresses.
  Diagnostics written with \<open>VLOG\<close> and \<open>LOG\<close> are left out, except for the
  lines of \<open>PrintBlobSizes\<close>, which are its result.
\<close>

subsection \<open>Objects and the store\<close>

type_synonym blob_ptr = nat
type_synonym net_ptr = nat
type_synonym pool_ptr = nat

text \<open>\<open>size_t\<close> is taken to be 64 bits wide; its arithmetic wraps around.\<close>

type_synonym size_t = "64 word"

text \<open>
  Modelled from the spec: the class \<open>Blob\<close> is declared in blob.h, which is not
  among the sources. The spec calls it a type-erased cell that holds one value at a
  time and is identified by a type tag: \<open>meta().id()\<close> is the tag and \<open>GetRaw()\<close>
  the value (none for an empty blob). The type of the values is left abstract.
\<close>

record 'v Blob =
  meta_id :: nat
  raw :: "'v option"

text \<open>
  Modelled from the spec: the constructor \<open>Blob()\<close> is declared in blob.h too; the
  spec calls its result "a new empty blob".
\<close>

definition new_Blob :: "'v Blob" where
  "new_Blob = \<lparr>meta_id = 0, raw = None\<rparr>"

text \<open>
  \<open>NetDef\<close> is the protobuf message of caffe2.proto, of which the workspace reads
  the optional string fields \<open>name\<close> and \<open>type\<close>. As protobuf has it,
  \<open>has_name()\<close> tells whether the field has been set, to whatever string, and
  \<open>name()\<close> returns its value, or the empty string when it has not been set.
\<close>

record NetDef =
  name_field :: "string option"
  type_field :: "string option"

definition has_name :: "NetDef \<Rightarrow> bool" where
  "has_name net_def = (name_field net_def \<noteq> None)"

definition NetDef_name :: "NetDef \<Rightarrow> string" where
  "NetDef_name net_def = (case name_field net_def of None \<Rightarrow> [] | Some n \<Rightarrow> n)"

text \<open>
  A thread pool is constructed from its number of threads; nothing else is known of
  it.
\<close>

record ThreadPool =
  numThreads :: int

text \<open>What happens to net objects, in the order it happens.\<close>

datatype event =
  NetDestroyed net_ptr
| NetConstructorCalled NetDef

text \<open>
  The store: one heap per kind of object. An address is an index; a destroyed
  object leaves \<open>None\<close> behind, and \<open>new\<close> always yields an address never
  used before.
\<close>

record ('v, 'n) Store =
  blobs :: "'v Blob option list"
  nets :: "'n option list"
  pools :: "ThreadPool option list"
  events :: "event list"

definition heap_at :: "'a option list \<Rightarrow> nat \<Rightarrow> 'a option" where
  "heap_at h p = (if p < length h then h ! p else None)"

definition heap_new :: "'a option list \<Rightarrow> 'a \<Rightarrow> nat \<times> 'a option list" where
  "heap_new h x = (length h, h @ [Some x])"

definition heap_delete :: "'a option list \<Rightarrow> nat \<Rightarrow> 'a option list" where
  "heap_delete h p = h[p := None]"

subsection \<open>The workspace\<close>

text \<open>
  Modelled from the spec: the class \<open>Workspace\<close> is declared in workspace.h, which
  is not among the sources. The spec gives it a map from blob names to owned blobs, a
  map from net names to owned nets, an optional non-owning reference to a parent and
  a lazily created thread pool; the members are \<open>blob_map_\<close>, \<open>net_map_\<close>,
  \<open>shared_\<close> and \<open>thread_pool_\<close> in workspace.cc.

  The maps are association lists with one entry per key, iterated in list order; a new
  key goes to the end (the spec accepts insertion order). An entry of \<open>net_map\<close> may
  hold the null pointer, as a \<open>unique_ptr\<close> can. The parent is there before the child
  and is only read through \<open>shared\<close>, so the workspaces reachable from one form a
  finite chain: a workspace holds its parent as a value, which is the parent's state
  at the time of the call.
\<close>

datatype Workspace =
  Workspace
    (blob_map: "(string \<times> blob_ptr) list")
    (net_map: "(string \<times> net_ptr option) list")
    (shared: "Workspace option")
    (thread_pool: "pool_ptr option")

definition set_blob_map :: "(string \<times> blob_ptr) list \<Rightarrow> Workspace \<Rightarrow> Workspace" where
  "set_blob_map m w = Workspace m (net_map w) (shared w) (thread_pool w)"

definition set_net_map :: "(string \<times> net_ptr option) list \<Rightarrow> Workspace \<Rightarrow> Workspace" where
  "set_net_map m w = Workspace (blob_map w) m (shared w) (thread_pool w)"

definition set_thread_pool :: "pool_ptr option \<Rightarrow> Workspace \<Rightarrow> Workspace" where
  "set_thread_pool p w = Workspace (blob_map w) (net_map w) (shared w) p"

subsection \<open>Blobs\<close>

text \<open>The loop \<open>for (auto& entry : blob_map_) names.push_back(entry.first)\<close>.\<close>

definition push_names :: "string list \<Rightarrow> (string \<times> blob_ptr) list \<Rightarrow> string list" where
  "push_names names m = foldl (\<lambda>acc entry. acc @ [fst entry]) names m"

definition LocalBlobs :: "Workspace \<Rightarrow> string list" where
  "LocalBlobs w = push_names [] (blob_map w)"

fun Blobs :: "Workspace \<Rightarrow> string list" where
  "Blobs (Workspace bm nm sh tp) =
     (let names = push_names [] bm
      in case sh of
           None \<Rightarrow> names
         | Some parent \<Rightarrow> names @ Blobs parent)"

text \<open>
  Modelled from the spec: \<open>HasBlob\<close> is defined in workspace.h, which is not among
  the sources. \<open>GetBlob\<close> asks it of the parent before it hands a name that is not
  local over to the parent's \<open>GetBlob\<close>, and the spec has that lookup go on
  "recursively, following the parent chain": \<open>HasBlob\<close> holds of a name that the
  workspace owns or that a workspace on its parent chain owns. \<open>CreateBlob\<close> makes
  the same test.
\<close>

fun HasBlob :: "Workspace \<Rightarrow> string \<Rightarrow> bool" where
  "HasBlob (Workspace bm nm sh tp) n =
     (map_of bm n \<noteq> None \<or> (case sh of None \<Rightarrow> False | Some parent \<Rightarrow> HasBlob parent n))"

fun GetBlob :: "Workspace \<Rightarrow> string \<Rightarrow> blob_ptr option" where
  "GetBlob (Workspace bm nm sh tp) n =
     (case map_of bm n of
        Some p \<Rightarrow> Some p
      | None \<Rightarrow>
          (case sh of
             None \<Rightarrow> None
           | Some parent \<Rightarrow> if HasBlob parent n then GetBlob parent n else None))"

text \<open>
  \<open>blob_map_[name] = unique_ptr<Blob>(new Blob())\<close>: the new blob is allocated,
  the entry is created if there is none, and a blob the entry held before is destroyed.
\<close>

definition assign_blob ::
  "string \<Rightarrow> Workspace \<Rightarrow> ('v, 'n) Store \<Rightarrow> Workspace \<times> ('v, 'n) Store" where
  "assign_blob n w st =
     (let (p, h) = heap_new (blobs st) new_Blob;
          h' = (case map_of (blob_map w) n of
                  None \<Rightarrow> h
                | Some old \<Rightarrow> heap_delete h old)
      in (set_blob_map (AList.update n p (blob_map w)) w, st\<lparr>blobs := h'\<rparr>))"

definition CreateBlob ::
  "Workspace \<Rightarrow> ('v, 'n) Store \<Rightarrow> string \<Rightarrow> blob_ptr option \<times> Workspace \<times> ('v, 'n) Store" where
  "CreateBlob w st n =
     (let (w', st') = (if HasBlob w n then (w, st) else assign_blob n w st)
      in (GetBlob w' n, w', st'))"

text \<open>The workspaces on the parent chain, the workspace itself first.\<close>

fun scopes :: "Workspace \<Rightarrow> Workspace list" where
  "scopes (Workspace bm nm sh tp) =
     Workspace bm nm sh tp # (case sh of None \<Rightarrow> [] | Some parent \<Rightarrow> scopes parent)"

text \<open>Every entry of every workspace on the parent chain points to a live blob.\<close>

definition blobs_live :: "Workspace \<Rightarrow> ('v, 'n) Store \<Rightarrow> bool" where
  "blobs_live w st =
     list_all (\<lambda>s. list_all (\<lambda>(n, p). heap_at (blobs st) p \<noteq> None) (blob_map s)) (scopes w)"

subsection \<open>Nets\<close>

text \<open>
  \<open>CAFFE_ENFORCE\<close> and \<open>CAFFE_THROW\<close> both throw \<open>EnforceNotMet\<close> with a
  message. A function that can throw returns the exception or its value, and the
  workspace and store as they are at that moment.
\<close>

datatype error = EnforceNotMet string

definition name_missing_message :: string where
  "name_missing_message = ''Net definition should have a name.''"

definition refuse_message :: "string \<Rightarrow> string" where
  "refuse_message n =
     ''I respectfully refuse to overwrite an existing net of the same name '' @ [CHR 0x22] @ n @
     [CHR 0x22] @ '', unless you explicitly specify overwrite=true.''"

text \<open>
  The net-construction collaborator \<open>caffe2::CreateNet(net_def, ws)\<close> lives in
  net.cc: it is a parameter. It sees the workspace and the store as they are when
  it is called, and yields a net object or null. What constructing a net does to
  the blobs of the workspace is outside this model.
\<close>

type_synonym ('v, 'n) net_ctor = "NetDef \<Rightarrow> Workspace \<Rightarrow> ('v, 'n) Store \<Rightarrow> 'n option"

definition destroy_net :: "net_ptr \<Rightarrow> ('v, 'n) Store \<Rightarrow> ('v, 'n) Store" where
  "destroy_net p st =
     st\<lparr>nets := heap_delete (nets st) p, events := events st @ [NetDestroyed p]\<rparr>"

text \<open>\<open>net_map_.erase(name)\<close>: the entry goes, and with it the net it owns.\<close>

definition erase_net ::
  "string \<Rightarrow> Workspace \<Rightarrow> ('v, 'n) Store \<Rightarrow> Workspace \<times> ('v, 'n) Store" where
  "erase_net k w st =
     (case map_of (net_map w) k of
        None \<Rightarrow> (w, st)
      | Some entry \<Rightarrow>
          (set_net_map (AList.delete k (net_map w)) w,
           case entry of None \<Rightarrow> st | Some p \<Rightarrow> destroy_net p st))"

definition construct_net ::
  "('v, 'n) net_ctor \<Rightarrow> NetDef \<Rightarrow> Workspace \<Rightarrow> ('v, 'n) Store \<Rightarrow>
   net_ptr option \<times> ('v, 'n) Store" where
  "construct_net ctor net_def w st =
     (let st1 = st\<lparr>events := events st @ [NetConstructorCalled net_def]\<rparr>
      in case ctor net_def w st of
           None \<Rightarrow> (None, st1)
         | Some net \<Rightarrow>
             (let (p, h) = heap_new (nets st1) net in (Some p, st1\<lparr>nets := h\<rparr>)))"

text \<open>
  \<open>net_map_[name] = unique_ptr<NetBase>(...)\<close>: the entry is created if there
  is none, and a net the entry owned before is destroyed.
\<close>

definition assign_net ::
  "string \<Rightarrow> net_ptr option \<Rightarrow> Workspace \<Rightarrow> ('v, 'n) Store \<Rightarrow> Workspace \<times> ('v, 'n) Store" where
  "assign_net k v w st =
     (set_net_map (AList.update k v (net_map w)) w,
      case map_of (net_map w) k of
        Some (Some old) \<Rightarrow> destroy_net old st
      | _ \<Rightarrow> st)"

text \<open>\<open>net_map_[name].get()\<close> on a key that is present.\<close>

definition net_map_get :: "Workspace \<Rightarrow> string \<Rightarrow> net_ptr option" where
  "net_map_get w k = (case map_of (net_map w) k of None \<Rightarrow> None | Some entry \<Rightarrow> entry)"

definition CreateNet ::
  "('v, 'n) net_ctor \<Rightarrow> NetDef \<Rightarrow> bool \<Rightarrow> Workspace \<Rightarrow> ('v, 'n) Store \<Rightarrow>
   (error + net_ptr option) \<times> Workspace \<times> ('v, 'n) Store" where
  "CreateNet ctor net_def overwrite w st =
     (if \<not> has_name net_def then (Inl (EnforceNotMet name_missing_message), w, st)
      else if map_of (net_map w) (NetDef_name net_def) \<noteq> None \<and> \<not> overwrite
      then (Inl (EnforceNotMet (refuse_message (NetDef_name net_def))), w, st)
      else
        (let (w1, st1) =
               (if map_of (net_map w) (NetDef_name net_def) \<noteq> None
                then erase_net (NetDef_name net_def) w st
                else (w, st));
             (r, st2) = construct_net ctor net_def w1 st1;
             (w3, st3) = assign_net (NetDef_name net_def) r w1 st2
         in if net_map_get w3 (NetDef_name net_def) = None
            then (let (w4, st4) = erase_net (NetDef_name net_def) w3 st3
                  in (Inr None, w4, st4))
            else (Inr (net_map_get w3 (NetDef_name net_def)), w3, st3)))"

definition GetNet :: "Workspace \<Rightarrow> string \<Rightarrow> net_ptr option" where
  "GetNet w n = (if map_of (net_map w) n = None then None else net_map_get w n)"

text \<open>
  \<open>RunNet\<close>: the net's \<open>Run()\<close> is a parameter that yields its boolean. Calling
  it through a null or dangling pointer is undefined behaviour: \<open>None\<close>.
\<close>

definition RunNet ::
  "('n \<Rightarrow> bool) \<Rightarrow> Workspace \<Rightarrow> ('v, 'n) Store \<Rightarrow> string \<Rightarrow> bool option" where
  "RunNet run w st n =
     (if map_of (net_map w) n = None then Some False
      else case net_map_get w n of
             None \<Rightarrow> None
           | Some p \<Rightarrow> map_option run (heap_at (nets st) p))"

subsection \<open>The thread pool\<close>

text \<open>
  \<open>std::thread::hardware_concurrency()\<close> returns an \<open>unsigned\<close>, stored in the
  \<open>int numThreads\<close>; the cap flag is an integer flag read as a \<open>bool\<close>. Both
  are parameters. The division is C++'s, which truncates.
\<close>

definition GetThreadPool ::
  "32 word \<Rightarrow> int \<Rightarrow> Workspace \<Rightarrow> ('v, 'n) Store \<Rightarrow> pool_ptr \<times> Workspace \<times> ('v, 'n) Store" where
  "GetThreadPool hardware_concurrency cap_flag w st =
     (case thread_pool w of
        Some p \<Rightarrow> (p, w, st)
      | None \<Rightarrow>
          (let n0 = sint hardware_concurrency;
               applyCap = (cap_flag \<noteq> 0);
               n = (if applyCap
                    then (if n0 \<le> 3 then n0 else if n0 \<le> 5 then 3 else n0 sdiv 2)
                    else n0);
               (p, h) = heap_new (pools st) \<lparr>numThreads = n\<rparr>
           in (p, set_thread_pool (Some p) w, st\<lparr>pools := h\<rparr>)))"

subsection \<open>The report of blob sizes\<close>

text \<open>
  \<open>GetShapeCallFunction\<close> maps a type id to the shape function registered for it,
  if any: it is a parameter. A shape function reads the value of a blob and gives
  the shape, the final value of the flag \<open>shares_data\<close> (false when the function
  leaves it alone) and the capacity.
\<close>

type_synonym 'v ShapeCall = "'v option \<Rightarrow> int list \<times> bool \<times> size_t"

text \<open>
  A line of the report. The percentage is the \<open>double\<close> expression
  \<open>100.0 * double(capacity) / cumtotal\<close> or the literal \<open>0.0\<close>: its operands are
  kept, the floating-point value is not computed.
\<close>

datatype percentage = Zero_percent | Ratio_percent size_t size_t

datatype log_line =
  Header string
| Blob_line (line_name: string) (line_shape: "int list") (line_capacity: size_t)
    (line_percentage: percentage)
| Total_line size_t

text \<open>
  Dereferencing a null or dangling blob pointer is undefined behaviour; a failed
  \<open>CHECK\<close> aborts.
\<close>

datatype fault = Null_dereference | Check_failed

text \<open>The first loop: the total, and one pair per blob whose type has a shape function.\<close>

fun collect_sizes ::
  "(nat \<Rightarrow> 'v ShapeCall option) \<Rightarrow> Workspace \<Rightarrow> ('v, 'n) Store \<Rightarrow> string list \<Rightarrow>
   size_t \<times> (size_t \<times> string) list \<Rightarrow> fault + size_t \<times> (size_t \<times> string) list" where
  "collect_sizes GetShapeCallFunction w st [] acc = Inr acc"
| "collect_sizes GetShapeCallFunction w st (s # ss) (cumtotal, blob_sizes) =
     (case GetBlob w s of
        None \<Rightarrow> Inl Null_dereference
      | Some p \<Rightarrow>
          (case heap_at (blobs st) p of
             None \<Rightarrow> Inl Null_dereference
           | Some b \<Rightarrow>
               (case GetShapeCallFunction (meta_id b) of
                  None \<Rightarrow> collect_sizes GetShapeCallFunction w st ss (cumtotal, blob_sizes)
                | Some shape_fun \<Rightarrow>
                    (let (shape, shares_data, capacity) = shape_fun (raw b);
                         capacity = (if shares_data then 0 else capacity)
                     in collect_sizes GetShapeCallFunction w st ss
                          (cumtotal + capacity, blob_sizes @ [(capacity, s)])))))"

text \<open>
  \<open>std::sort\<close> with the comparator \<open>b.first < a.first\<close>, here \<open>larger_first\<close>.
  The standard promises a permutation of the input that is sorted for the
  comparator, and nothing about the order of elements that compare equal. The sort
  is a parameter, and \<open>std_sort_post\<close> is what the standard promises of its result.
\<close>

definition larger_first :: "size_t \<times> string \<Rightarrow> size_t \<times> string \<Rightarrow> bool" where
  "larger_first a b = (fst b < fst a)"

definition std_sort_post :: "(size_t \<times> string) list \<Rightarrow> (size_t \<times> string) list \<Rightarrow> bool" where
  "std_sort_post xs ys = (mset ys = mset xs \<and> sorted_wrt (\<lambda>a b. \<not> larger_first b a) ys)"

text \<open>The second loop: one line per pair, in the order of the sorted vector.\<close>

fun print_lines ::
  "(nat \<Rightarrow> 'v ShapeCall option) \<Rightarrow> Workspace \<Rightarrow> ('v, 'n) Store \<Rightarrow> size_t \<Rightarrow>
   (size_t \<times> string) list \<Rightarrow> fault + log_line list" where
  "print_lines GetShapeCallFunction w st cumtotal [] = Inr []"
| "print_lines GetShapeCallFunction w st cumtotal (sb # rest) =
     (case GetBlob w (snd sb) of
        None \<Rightarrow> Inl Null_dereference
      | Some p \<Rightarrow>
          (case heap_at (blobs st) p of
             None \<Rightarrow> Inl Null_dereference
           | Some b \<Rightarrow>
               (case GetShapeCallFunction (meta_id b) of
                  None \<Rightarrow> Inl Check_failed
                | Some shape_fun \<Rightarrow>
                    (let (shape, shares_data, capacity) = shape_fun (raw b);
                         line = Blob_line (snd sb) shape (fst sb)
                                  (if 0 < cumtotal then Ratio_percent (fst sb) cumtotal
                                   else Zero_percent)
                     in case print_lines GetShapeCallFunction w st cumtotal rest of
                          Inl f \<Rightarrow> Inl f
                        | Inr ls \<Rightarrow> Inr (line # ls)))))"

definition PrintBlobSizes ::
  "((size_t \<times> string) list \<Rightarrow> (size_t \<times> string) list) \<Rightarrow>
   (nat \<Rightarrow> 'v ShapeCall option) \<Rightarrow> Workspace \<Rightarrow> ('v, 'n) Store \<Rightarrow> fault + log_line list" where
  "PrintBlobSizes std_sort GetShapeCallFunction w st =
     (case collect_sizes GetShapeCallFunction w st (LocalBlobs w) (0, []) of
        Inl f \<Rightarrow> Inl f
      | Inr (cumtotal, blob_sizes) \<Rightarrow>
          (case print_lines GetShapeCallFunction w st cumtotal (std_sort blob_sizes) of
             Inl f \<Rightarrow> Inl f
           | Inr ls \<Rightarrow>
               Inr ([Header ''---- Workspace blobs: ---- '',
                     Header ''name;current shape;capacity bytes;percentage''] @
                    ls @ [Total_line cumtotal])))"

text \<open>
  The capacity a blob is credited with, in the words of the specification: what its
  shape function reports, or zero when the function reports that the blob shares
  its data; nothing for a blob whose type has no shape function.
\<close>

definition credited_capacity ::
  "(nat \<Rightarrow> 'v ShapeCall option) \<Rightarrow> 'v Blob \<Rightarrow> size_t option" where
  "credited_capacity GetShapeCallFunction b =
     (case GetShapeCallFunction (meta_id b) of
        None \<Rightarrow> None
      | Some shape_fun \<Rightarrow>
          (case shape_fun (raw b) of
             (shape, shares_data, capacity) \<Rightarrow> Some (if shares_data then 0 else capacity)))"

text \<open>The credited pairs of the local blobs, in the order the blobs are met.\<close>

definition credited_sizes ::
  "(nat \<Rightarrow> 'v ShapeCall option) \<Rightarrow> ('v, 'n) Store \<Rightarrow> (string \<times> blob_ptr) list \<Rightarrow>
   (size_t \<times> string) list" where
  "credited_sizes GetShapeCallFunction st m =
     List.map_filter
       (\<lambda>(n, p). case heap_at (blobs st) p of
                   None \<Rightarrow> None
                 | Some b \<Rightarrow> map_option (\<lambda>c. (c, n)) (credited_capacity GetShapeCallFunction b))
       m"

text \<open>Every local entry points to a live blob, and no name has two entries.\<close>

definition local_blobs_live :: "Workspace \<Rightarrow> ('v, 'n) Store \<Rightarrow> bool" where
  "local_blobs_live w st =
     (distinct (map fst (blob_map w)) \<and>
      list_all (\<lambda>(n, p). heap_at (blobs st) p \<noteq> None) (blob_map w))"

subsection \<open>The sort of libstdc++\<close>

text \<open>
  What \<open>std::sort\<close> does with elements that compare equal depends on the library.
  This is the introsort of libstdc++ (bits/stl_algo.h), on a vector as a list with
  indices: quicksort with the median of three as pivot on ranges of more than 16
  elements, then an insertion sort over the whole range. The loops called unguarded
  run without a bounds test in the library; here they also stop at the ends of the
  list. When the depth limit is used up the library sorts the range with a heap sort
  (\<open>std::__partial_sort\<close>), which is a parameter here.
\<close>

definition iter_swap :: "'a list \<Rightarrow> nat \<Rightarrow> nat \<Rightarrow> 'a list" where
  "iter_swap xs i j = xs[i := xs ! j, j := xs ! i]"

definition move_median_to_first ::
  "('a \<Rightarrow> 'a \<Rightarrow> bool) \<Rightarrow> 'a list \<Rightarrow> nat \<Rightarrow> nat \<Rightarrow> nat \<Rightarrow> nat \<Rightarrow> 'a list" where
  "move_median_to_first cmp xs result a b c =
     (if cmp (xs ! a) (xs ! b) then
        (if cmp (xs ! b) (xs ! c) then iter_swap xs result b
         else if cmp (xs ! a) (xs ! c) then iter_swap xs result c
         else iter_swap xs result a)
      else if cmp (xs ! a) (xs ! c) then iter_swap xs result a
      else if cmp (xs ! b) (xs ! c) then iter_swap xs result c
      else iter_swap xs result b)"

text \<open>\<open>while (comp(first, pivot)) ++first\<close> and \<open>while (comp(pivot, last)) --last\<close>.\<close>

function scan_up :: "('a \<Rightarrow> 'a \<Rightarrow> bool) \<Rightarrow> 'a list \<Rightarrow> nat \<Rightarrow> nat \<Rightarrow> nat" where
  "scan_up cmp xs pivot first =
     (if first < length xs \<and> cmp (xs ! first) (xs ! pivot)
      then scan_up cmp xs pivot (first + 1) else first)"
  by pat_completeness auto
termination
  by (relation "measure (\<lambda>(cmp, xs, pivot, first). length xs - first)") auto

declare scan_up.simps [simp del]

function scan_down :: "('a \<Rightarrow> 'a \<Rightarrow> bool) \<Rightarrow> 'a list \<Rightarrow> nat \<Rightarrow> nat \<Rightarrow> nat" where
  "scan_down cmp xs pivot lst =
     (if 0 < lst \<and> cmp (xs ! pivot) (xs ! lst)
      then scan_down cmp xs pivot (lst - 1) else lst)"
  by pat_completeness auto
termination
  by (relation "measure (\<lambda>(cmp, xs, pivot, lst). lst)") auto

declare scan_down.simps [simp del]

text \<open>\<open>__unguarded_partition\<close>: the result is the cut and the vector.\<close>

function unguarded_partition ::
  "('a \<Rightarrow> 'a \<Rightarrow> bool) \<Rightarrow> 'a list \<Rightarrow> nat \<Rightarrow> nat \<Rightarrow> nat \<Rightarrow> nat \<times> 'a list" where
  "unguarded_partition cmp xs first lst pivot =
     (let first1 = scan_up cmp xs pivot first;
          lst1 = scan_down cmp xs pivot (lst - 1)
      in if \<not> first1 < lst1 then (first1, xs)
         else unguarded_partition cmp (iter_swap xs first1 lst1) (first1 + 1) lst1 pivot)"
  by pat_completeness auto
termination
proof (relation "measure (\<lambda>(cmp, xs, first, lst, pivot). lst - first)")
  show "wf (measure (\<lambda>(cmp :: 'a \<Rightarrow> 'a \<Rightarrow> bool, xs :: 'a list, first, lst, pivot :: nat).
          lst - first))"
    by simp
next
  fix cmp :: "'a \<Rightarrow> 'a \<Rightarrow> bool" and xs :: "'a list" and first lst pivot first1 lst1 :: nat
  assume f: "first1 = scan_up cmp xs pivot first"
    and l: "lst1 = scan_down cmp xs pivot (lst - 1)"
    and more: "\<not> \<not> first1 < lst1"
  have up: "f \<le> scan_up c ys p f" for c :: "'a \<Rightarrow> 'a \<Rightarrow> bool" and ys p f
    by (induction c ys p f rule: scan_up.induct) (subst scan_up.simps, auto)
  have down: "scan_down c ys p k \<le> k" for c :: "'a \<Rightarrow> 'a \<Rightarrow> bool" and ys p k
    by (induction c ys p k rule: scan_down.induct) (subst scan_down.simps, auto)
  from up [of first cmp xs pivot] down [of cmp xs pivot "lst - 1"] f l more
  show "((cmp, iter_swap xs first1 lst1, first1 + 1, lst1, pivot), (cmp, xs, first, lst, pivot))
        \<in> measure (\<lambda>(cmp, xs, first, lst, pivot). lst - first)"
    by simp
qed

declare unguarded_partition.simps [simp del]

definition unguarded_partition_pivot ::
  "('a \<Rightarrow> 'a \<Rightarrow> bool) \<Rightarrow> 'a list \<Rightarrow> nat \<Rightarrow> nat \<Rightarrow> nat \<times> 'a list" where
  "unguarded_partition_pivot cmp xs first lst =
     (let mid = first + (lst - first) div 2;
          xs1 = move_median_to_first cmp xs first (first + 1) mid (lst - 1)
      in unguarded_partition cmp xs1 (first + 1) lst first)"

text \<open>
  \<open>__introsort_loop\<close>: every turn of the loop takes one from the depth limit, sorts
  the part right of the cut by a call of its own and goes on with the part left of it.
\<close>

fun introsort_loop ::
  "('a list \<Rightarrow> nat \<Rightarrow> nat \<Rightarrow> 'a list) \<Rightarrow> ('a \<Rightarrow> 'a \<Rightarrow> bool) \<Rightarrow> 'a list \<Rightarrow> nat \<Rightarrow> nat \<Rightarrow> nat \<Rightarrow>
   'a list" where
  "introsort_loop partial_sort cmp xs first lst 0 =
     (if lst - first > 16 then partial_sort xs first lst else xs)"
| "introsort_loop partial_sort cmp xs first lst (Suc depth_limit) =
     (if lst - first > 16
      then (let (cut, xs1) = unguarded_partition_pivot cmp xs first lst;
                xs2 = introsort_loop partial_sort cmp xs1 cut lst depth_limit
            in introsort_loop partial_sort cmp xs2 first cut depth_limit)
      else xs)"

text \<open>
  \<open>__unguarded_linear_insert\<close>: the value at \<open>last\<close> moves down past the elements
  it is to stand before.
\<close>

function unguarded_linear_insert ::
  "('a \<Rightarrow> 'a \<Rightarrow> bool) \<Rightarrow> 'a \<Rightarrow> 'a list \<Rightarrow> nat \<Rightarrow> 'a list" where
  "unguarded_linear_insert cmp val xs lst =
     (if 0 < lst \<and> cmp val (xs ! (lst - 1))
      then unguarded_linear_insert cmp val (xs[lst := xs ! (lst - 1)]) (lst - 1)
      else xs[lst := val])"
  by pat_completeness auto
termination
  by (relation "measure (\<lambda>(cmp, val, xs, lst). lst)") auto

declare unguarded_linear_insert.simps [simp del]

text \<open>
  The loop of \<open>__insertion_sort\<close>: an element that is to stand before the first one
  goes to the front (\<open>move_backward\<close>), any other is inserted unguarded.
\<close>

function insertion_sort_loop ::
  "('a \<Rightarrow> 'a \<Rightarrow> bool) \<Rightarrow> 'a list \<Rightarrow> nat \<Rightarrow> nat \<Rightarrow> nat \<Rightarrow> 'a list" where
  "insertion_sort_loop cmp xs first i lst =
     (if i < lst
      then insertion_sort_loop cmp
             (if cmp (xs ! i) (xs ! first)
              then take first xs @ xs ! i # take (i - first) (drop first xs) @ drop (i + 1) xs
              else unguarded_linear_insert cmp (xs ! i) xs i)
             first (i + 1) lst
      else xs)"
  by pat_completeness auto
termination
  by (relation "measure (\<lambda>(cmp, xs, first, i, lst). lst - i)") auto

declare insertion_sort_loop.simps [simp del]

definition insertion_sort ::
  "('a \<Rightarrow> 'a \<Rightarrow> bool) \<Rightarrow> 'a list \<Rightarrow> nat \<Rightarrow> nat \<Rightarrow> 'a list" where
  "insertion_sort cmp xs first lst =
     (if first = lst then xs else insertion_sort_loop cmp xs first (first + 1) lst)"

function unguarded_insertion_sort ::
  "('a \<Rightarrow> 'a \<Rightarrow> bool) \<Rightarrow> 'a list \<Rightarrow> nat \<Rightarrow> nat \<Rightarrow> 'a list" where
  "unguarded_insertion_sort cmp xs i lst =
     (if i < lst
      then unguarded_insertion_sort cmp (unguarded_linear_insert cmp (xs ! i) xs i) (i + 1) lst
      else xs)"
  by pat_completeness auto
termination
  by (relation "measure (\<lambda>(cmp, xs, i, lst). lst - i)") auto

declare unguarded_insertion_sort.simps [simp del]

definition final_insertion_sort ::
  "('a \<Rightarrow> 'a \<Rightarrow> bool) \<Rightarrow> 'a list \<Rightarrow> nat \<Rightarrow> nat \<Rightarrow> 'a list" where
  "final_insertion_sort cmp xs first lst =
     (if lst - first > 16
      then unguarded_insertion_sort cmp (insertion_sort cmp xs first (first + 16)) (first + 16) lst
      else insertion_sort cmp xs first lst)"

text \<open>\<open>std::__lg\<close>: the binary logarithm, rounded down.\<close>

function lg :: "nat \<Rightarrow> nat" where
  "lg n = (if n < 2 then 0 else lg (n div 2) + 1)"
  by pat_completeness auto
termination
  by (relation "measure (\<lambda>n. n)") auto

declare lg.simps [simp del]

definition libstdcxx_sort ::
  "('a list \<Rightarrow> nat \<Rightarrow> nat \<Rightarrow> 'a list) \<Rightarrow> ('a \<Rightarrow> 'a \<Rightarrow> bool) \<Rightarrow> 'a list \<Rightarrow> 'a list" where
  "libstdcxx_sort partial_sort cmp xs =
     (if xs = [] then xs
      else final_insertion_sort cmp
             (introsort_loop partial_sort cmp xs 0 (length xs) (lg (length xs) * 2))
             0 (length xs))"

text \<open>
  A heap sort that is never to be called: what it returns has no elements, so a result
  of the sort that has them all did not come from it.
\<close>

definition partial_sort_unreached :: "'a list \<Rightarrow> nat \<Rightarrow> nat \<Rightarrow> 'a list" where
  "partial_sort_unreached xs first lst = []"

text \<open>
  A registry for examples, over blobs that hold a capacity: type 1 owns its data, type
  2 shares the data of another blob, and no other type has a shape function.
\<close>

definition example_shapes :: "nat \<Rightarrow> size_t ShapeCall option" where
  "example_shapes t =
     (if t = 1 then Some (\<lambda>r. ([], False, case r of None \<Rightarrow> 0 | Some v \<Rightarrow> v))
      else if t = 2 then Some (\<lambda>r. ([], True, case r of None \<Rightarrow> 0 | Some v \<Rightarrow> v))
      else None)"

section \<open>Properties\<close>

subsection \<open>Blobs\<close>

lemma push_names_eq: "push_names acc m = acc @ map fst m"
  unfolding push_names_def by (induction m arbitrary: acc) simp_all

lemma LocalBlobs_eq: "LocalBlobs w = map fst (blob_map w)"
  by (simp add: LocalBlobs_def push_names_eq)

lemma Blobs_unfold:
  "Blobs w = LocalBlobs w @ (case shared w of None \<Rightarrow> [] | Some parent \<Rightarrow> Blobs parent)"
  by (cases w) (simp add: LocalBlobs_eq push_names_eq split: option.splits)

lemma GetBlob_unfold:
  "GetBlob w n =
     (case map_of (blob_map w) n of
        Some p \<Rightarrow> Some p
      | None \<Rightarrow>
          (case shared w of
             None \<Rightarrow> None
           | Some parent \<Rightarrow> if HasBlob parent n then GetBlob parent n else None))"
  by (cases w) (simp split: option.splits)

lemma update_absent:
  "map_of al k = None \<Longrightarrow> AList.update k v al = al @ [(k, v)]"
  by (induction al) (auto split: if_splits)

lemma GetBlob_local: "map_of (blob_map w) n = Some p \<Longrightarrow> GetBlob w n = Some p"
  by (simp add: GetBlob_unfold)

lemma heap_at_append: "p < length h \<Longrightarrow> heap_at (h @ ys) p = heap_at h p"
  by (simp add: heap_at_def nth_append)

lemma heap_at_fresh: "heap_at (h @ [Some x]) (length h) = Some x"
  by (simp add: heap_at_def)

lemma assign_blob_fresh:
  assumes "map_of (blob_map w) n = None"
  shows "assign_blob n w st =
           (set_blob_map (blob_map w @ [(n, length (blobs st))]) w,
            st\<lparr>blobs := blobs st @ [Some new_Blob]\<rparr>)"
  using assms by (simp add: assign_blob_def heap_new_def update_absent)

text \<open>\<open>HasBlob\<close> holds of the names that \<open>GetBlob\<close> resolves.\<close>

lemma HasBlob_GetBlob: "HasBlob w n \<longleftrightarrow> GetBlob w n \<noteq> None"
  by (induction w n rule: GetBlob.induct) (auto split: option.splits)

text \<open>The names that \<open>GetBlob\<close> resolves are the names that \<open>Blobs\<close> lists.\<close>

lemma GetBlob_resolves_Blobs: "GetBlob w n \<noteq> None \<longleftrightarrow> n \<in> set (Blobs w)"
proof (induction w rule: Blobs.induct)
  case (1 bm nm sh tp)
  have local: "map_of bm n \<noteq> None \<longleftrightarrow> n \<in> fst ` set bm"
    by (simp add: map_of_eq_None_iff)
  show ?case
  proof (cases sh)
    case None
    with local show ?thesis
      by (auto simp: push_names_eq split: option.splits)
  next
    case (Some parent)
    with "1.IH" have "GetBlob parent n \<noteq> None \<longleftrightarrow> n \<in> set (Blobs parent)"
      by simp
    with Some local HasBlob_GetBlob [of parent n] show ?thesis
      by (auto simp: push_names_eq split: option.splits)
  qed
qed

lemma GetBlob_None_local: "GetBlob w n = None \<Longrightarrow> map_of (blob_map w) n = None"
  by (cases w) (simp split: option.splits)

lemma GetBlob_parent:
  assumes "shared child = Some parent" and "map_of (blob_map child) n = None"
  shows "GetBlob child n = GetBlob parent n"
  using assms HasBlob_GetBlob [of parent n] by (auto simp: GetBlob_unfold [of child])

lemma CreateBlob_found:
  "GetBlob w n = Some p \<Longrightarrow> CreateBlob w st n = (Some p, w, st)"
  by (simp add: CreateBlob_def HasBlob_GetBlob)

lemma CreateBlob_fresh:
  assumes "GetBlob w n = None"
  shows "CreateBlob w st n =
           (Some (length (blobs st)),
            set_blob_map (blob_map w @ [(n, length (blobs st))]) w,
            st\<lparr>blobs := blobs st @ [Some new_Blob]\<rparr>)"
proof -
  have absent: "map_of (blob_map w) n = None"
    using assms by (rule GetBlob_None_local)
  have "GetBlob (set_blob_map (blob_map w @ [(n, length (blobs st))]) w) n =
        Some (length (blobs st))"
    using absent by (simp add: GetBlob_local set_blob_map_def map_add_def)
  then show ?thesis
    using assms absent by (simp add: CreateBlob_def HasBlob_GetBlob assign_blob_fresh)
qed

lemma GetBlob_live:
  "blobs_live w st \<Longrightarrow> GetBlob w n = Some p \<Longrightarrow> heap_at (blobs st) p \<noteq> None"
proof (induction w n rule: GetBlob.induct)
  case (1 bm nm sh tp n)
  show ?case
  proof (cases "map_of bm n")
    case (Some q)
    with "1.prems" have "(n, p) \<in> set bm"
      by (simp add: map_of_SomeD)
    with "1.prems" show ?thesis
      by (auto simp: blobs_live_def list_all_iff)
  next
    case None
    with "1.prems" obtain parent where sh: "sh = Some parent"
      and has: "HasBlob parent n" and get: "GetBlob parent n = Some p"
      by (auto split: option.splits if_splits)
    from "1.prems" sh have "blobs_live parent st"
      by (simp add: blobs_live_def)
    with "1.IH" None sh has get show ?thesis
      by simp
  qed
qed

text \<open>
  C1, as the code has it. A child workspace with no local blob \<open>x\<close> whose parent owns
  a live blob \<open>x\<close> resolves \<open>x\<close> to the parent's blob. The child's \<open>CreateBlob x\<close>
  finds the name through the parent: it creates nothing, returns the parent's blob
  and leaves the child, the parent and the store as they were, so the child still
  resolves \<open>x\<close> to the parent's blob and that blob is what it was. A child that does
  hold a blob \<open>x\<close> of its own resolves \<open>x\<close> to it, whatever the parent holds, and
  \<open>CreateBlob x\<close> returns it.
\<close>

theorem C1_parent_blob_visible:
  assumes parent: "shared child = Some parent"
    and owns: "map_of (blob_map parent) x = Some b"
    and live: "heap_at (blobs st) b = Some blob"
    and create: "CreateBlob child st x = (r, child', st')"
  shows "(map_of (blob_map child) x = None \<longrightarrow>
            GetBlob child x = Some b \<and> r = Some b \<and> GetBlob child' x = Some b) \<and>
         (\<forall>c. map_of (blob_map child) x = Some c \<longrightarrow>
            GetBlob child x = Some c \<and> r = Some c \<and> GetBlob child' x = Some c) \<and>
         child' = child \<and> st' = st \<and>
         shared child' = Some parent \<and>
         GetBlob parent x = Some b \<and>
         heap_at (blobs st') b = Some blob"
proof -
  have at_parent: "GetBlob parent x = Some b"
    using owns by (rule GetBlob_local)
  have resolved: "GetBlob child x =
      (case map_of (blob_map child) x of None \<Rightarrow> Some b | Some c \<Rightarrow> Some c)"
  proof (cases "map_of (blob_map child) x")
    case None
    with GetBlob_parent [OF parent None] at_parent show ?thesis by simp
  next
    case (Some c)
    then show ?thesis by (simp add: GetBlob_local)
  qed
  then obtain q where q: "GetBlob child x = Some q"
    by (cases "map_of (blob_map child) x") simp_all
  from create CreateBlob_found [OF q, of st]
  have "r = Some q" "child' = child" "st' = st"
    by simp_all
  with q resolved parent live at_parent show ?thesis
    by (auto split: option.splits)
qed

text \<open>
  The parent owns \<open>x\<close> at address 0. A child that owns nothing gets address 0 from
  \<open>CreateBlob\<close> and stays empty.
\<close>

theorem C1_parent_blob_visible_witness:
  "shared (Workspace [] [] (Some (Workspace [(''x'', 0)] [] None None)) None) =
     Some (Workspace [(''x'', 0)] [] None None) \<and>
   map_of (blob_map (Workspace [(''x'', 0)] [] None None)) ''x'' = Some 0 \<and>
   heap_at [Some \<lparr>meta_id = 1, raw = Some (7::nat)\<rparr>] 0 = Some \<lparr>meta_id = 1, raw = Some 7\<rparr> \<and>
   map_of (blob_map (Workspace [] [] (Some (Workspace [(''x'', 0)] [] None None)) None)) ''x'' = None \<and>
   CreateBlob (Workspace [] [] (Some (Workspace [(''x'', 0)] [] None None)) None)
     \<lparr>blobs = [Some \<lparr>meta_id = 1, raw = Some (7::nat)\<rparr>], nets = ([] :: nat option list),
      pools = [], events = []\<rparr> ''x'' =
     (Some 0,
      Workspace [] [] (Some (Workspace [(''x'', 0)] [] None None)) None,
      \<lparr>blobs = [Some \<lparr>meta_id = 1, raw = Some 7\<rparr>], nets = [], pools = [], events = []\<rparr>) \<and>
   GetBlob (Workspace [] [] (Some (Workspace [(''x'', 0)] [] None None)) None) ''x'' = Some 0 \<and>
   GetBlob (Workspace [(''x'', 0)] [] None None) ''x'' = Some 0"
proof -
  let ?parent = "Workspace [(''x'', 0)] [] None None"
  let ?child = "Workspace [] [] (Some ?parent) None"
  let ?st = "\<lparr>blobs = [Some \<lparr>meta_id = 1, raw = Some (7::nat)\<rparr>], nets = ([] :: nat option list),
      pools = [], events = []\<rparr>"
  have h1: "shared ?child = Some ?parent" by simp
  have h2: "map_of (blob_map ?parent) ''x'' = Some 0" by simp
  have h3: "heap_at (blobs ?st) 0 = Some \<lparr>meta_id = 1, raw = Some 7\<rparr>"
    by (simp add: heap_at_def)
  have h4: "map_of (blob_map ?child) ''x'' = None" by simp
  have h5: "CreateBlob ?child ?st ''x'' = (Some 0, ?child, ?st)"
    by (simp add: CreateBlob_def)
  from C1_parent_blob_visible [OF h1 h2 h3 h5] h1 h2 h3 h4 h5 show ?thesis
    by (simp add: heap_at_def)
qed

text \<open>
  C1 as stated fails after the child's \<open>CreateBlob\<close>: the parent owns \<open>x\<close> at
  address 0, the child owns nothing and has the parent as \<open>shared\<close>. The child's
  \<open>CreateBlob x\<close> returns address 0, the parent's blob, allocates no blob, and the
  child has no entry for \<open>x\<close> afterwards.
\<close>

theorem C1_CreateBlob_makes_no_local_blob:
  "CreateBlob (Workspace [] [] (Some (Workspace [(''x'', 0)] [] None None)) None)
     \<lparr>blobs = [Some \<lparr>meta_id = 1, raw = Some (7::nat)\<rparr>], nets = ([] :: nat option list),
      pools = [], events = []\<rparr> ''x'' =
     (Some 0,
      Workspace [] [] (Some (Workspace [(''x'', 0)] [] None None)) None,
      \<lparr>blobs = [Some \<lparr>meta_id = 1, raw = Some 7\<rparr>], nets = [], pools = [], events = []\<rparr>) \<and>
   map_of (blob_map (Workspace [(''x'', 0)] [] None None)) ''x'' = Some 0 \<and>
   map_of (blob_map (Workspace [] [] (Some (Workspace [(''x'', 0)] [] None None)) None)) ''x'' =
     None"
  by (simp add: CreateBlob_def)

text \<open>
  C6. In a workspace whose blob pointers are live, two calls of \<open>CreateBlob\<close> with
  the same name return the same address, and a blob lives at it after either call.
  The second call changes neither the workspace nor the store. A blob that the name
  resolved to before the first call is returned, and then the first call changes
  nothing either; when the name resolved to nothing, the first call allocates a new
  empty blob at a new address and enters it in the workspace's own map. No blob that
  existed before the calls is changed, and the workspace has at most one more local
  blob than before.
\<close>

theorem C6_CreateBlob_idempotent:
  assumes live: "blobs_live w st"
    and first: "CreateBlob w st n = (r1, w1, st1)"
    and second: "CreateBlob w1 st1 n = (r2, w2, st2)"
  shows "r2 = r1 \<and>
         (\<exists>p blob. r1 = Some p \<and> heap_at (blobs st1) p = Some blob \<and>
                   heap_at (blobs st2) p = Some blob) \<and>
         w2 = w1 \<and> st2 = st1 \<and>
         length (LocalBlobs w2) \<le> length (LocalBlobs w) + 1 \<and>
         (\<forall>p. GetBlob w n = Some p \<longrightarrow> r1 = Some p \<and> w1 = w \<and> st1 = st) \<and>
         (GetBlob w n = None \<longrightarrow>
            r1 = Some (length (blobs st)) \<and>
            heap_at (blobs st1) (length (blobs st)) = Some new_Blob \<and>
            map_of (blob_map w1) n = Some (length (blobs st)) \<and>
            length (LocalBlobs w1) = length (LocalBlobs w) + 1) \<and>
         (\<forall>p < length (blobs st). heap_at (blobs st2) p = heap_at (blobs st) p)"
proof (cases "GetBlob w n")
  case None
  from first CreateBlob_fresh [OF None, of st]
  have r1: "r1 = Some (length (blobs st))"
    and w1: "w1 = set_blob_map (blob_map w @ [(n, length (blobs st))]) w"
    and st1: "st1 = st\<lparr>blobs := blobs st @ [Some new_Blob]\<rparr>"
    by simp_all
  have absent: "map_of (blob_map w) n = None"
    using None by (rule GetBlob_None_local)
  have entry: "map_of (blob_map w1) n = Some (length (blobs st))"
    using absent by (simp add: w1 set_blob_map_def map_add_def)
  then have found: "GetBlob w1 n = Some (length (blobs st))"
    by (rule GetBlob_local)
  from second CreateBlob_found [OF found, of st1]
  have again: "r2 = Some (length (blobs st))" "w2 = w1" "st2 = st1"
    by simp_all
  have new: "heap_at (blobs st1) (length (blobs st)) = Some new_Blob"
    by (simp add: st1 heap_at_fresh)
  have grown: "length (LocalBlobs w1) = length (LocalBlobs w) + 1"
    by (simp add: LocalBlobs_eq w1 set_blob_map_def)
  have kept: "\<forall>p < length (blobs st). heap_at (blobs st1) p = heap_at (blobs st) p"
    by (simp add: st1 heap_at_append)
  from r1 again new grown kept entry None show ?thesis
    by simp
next
  case (Some p)
  from first CreateBlob_found [OF Some, of st]
  have 1: "r1 = Some p" "w1 = w" "st1 = st"
    by simp_all
  from second CreateBlob_found [OF Some, of st] 1
  have 2: "r2 = Some p" "w2 = w" "st2 = st"
    by simp_all
  from GetBlob_live [OF live Some] obtain blob where "heap_at (blobs st) p = Some blob"
    by auto
  with 1 2 Some show ?thesis by simp
qed

text \<open>
  A workspace that owns \<open>y\<close> at address 0 and is asked for the new name \<open>x\<close>: the
  first call allocates an empty blob at address 1 and enters it, the second finds it
  there. Asked for \<open>y\<close>, both calls return address 0 and change nothing.
\<close>

theorem C6_CreateBlob_idempotent_witness:
  "blobs_live (Workspace [(''y'', 0)] [] None None)
     \<lparr>blobs = [Some \<lparr>meta_id = 1, raw = Some (7::nat)\<rparr>], nets = ([] :: nat option list),
      pools = [], events = []\<rparr> \<and>
   GetBlob (Workspace [(''y'', 0)] [] None None) ''x'' = None \<and>
   CreateBlob (Workspace [(''y'', 0)] [] None None)
     \<lparr>blobs = [Some \<lparr>meta_id = 1, raw = Some (7::nat)\<rparr>], nets = ([] :: nat option list),
      pools = [], events = []\<rparr> ''x'' =
     (Some 1, Workspace [(''y'', 0), (''x'', 1)] [] None None,
      \<lparr>blobs = [Some \<lparr>meta_id = 1, raw = Some 7\<rparr>, Some new_Blob], nets = [], pools = [],
       events = []\<rparr>) \<and>
   CreateBlob (Workspace [(''y'', 0), (''x'', 1)] [] None None)
     \<lparr>blobs = [Some \<lparr>meta_id = 1, raw = Some (7::nat)\<rparr>, Some new_Blob],
      nets = ([] :: nat option list), pools = [], events = []\<rparr> ''x'' =
     (Some 1, Workspace [(''y'', 0), (''x'', 1)] [] None None,
      \<lparr>blobs = [Some \<lparr>meta_id = 1, raw = Some 7\<rparr>, Some new_Blob], nets = [], pools = [],
       events = []\<rparr>) \<and>
   heap_at [Some \<lparr>meta_id = 1, raw = Some (7::nat)\<rparr>, Some new_Blob] 1 = Some new_Blob \<and>
   GetBlob (Workspace [(''y'', 0)] [] None None) ''y'' = Some 0 \<and>
   CreateBlob (Workspace [(''y'', 0)] [] None None)
     \<lparr>blobs = [Some \<lparr>meta_id = 1, raw = Some (7::nat)\<rparr>], nets = ([] :: nat option list),
      pools = [], events = []\<rparr> ''y'' =
     (Some 0, Workspace [(''y'', 0)] [] None None,
      \<lparr>blobs = [Some \<lparr>meta_id = 1, raw = Some 7\<rparr>], nets = [], pools = [], events = []\<rparr>) \<and>
   heap_at [Some \<lparr>meta_id = 1, raw = Some (7::nat)\<rparr>] 0 = Some \<lparr>meta_id = 1, raw = Some 7\<rparr>"
proof -
  let ?w = "Workspace [(''y'', 0)] [] None None"
  let ?st = "\<lparr>blobs = [Some \<lparr>meta_id = 1, raw = Some (7::nat)\<rparr>], nets = ([] :: nat option list),
      pools = [], events = []\<rparr>"
  let ?w1 = "Workspace [(''y'', 0), (''x'', 1)] [] None None"
  let ?st1 = "\<lparr>blobs = [Some \<lparr>meta_id = 1, raw = Some (7::nat)\<rparr>, Some new_Blob],
      nets = ([] :: nat option list), pools = [], events = []\<rparr>"
  have live: "blobs_live ?w ?st"
    by (simp add: blobs_live_def heap_at_def)
  have fresh: "GetBlob ?w ''x'' = None" by simp
  have new1: "CreateBlob ?w ?st ''x'' = (Some 1, ?w1, ?st1)"
    by (simp add: CreateBlob_def assign_blob_def heap_new_def set_blob_map_def)
  have new2: "CreateBlob ?w1 ?st1 ''x'' = (Some 1, ?w1, ?st1)"
    by (simp add: CreateBlob_def)
  have old: "CreateBlob ?w ?st ''y'' = (Some 0, ?w, ?st)"
    by (simp add: CreateBlob_def)
  have at1: "heap_at (blobs ?st1) 1 = Some new_Blob"
    and at0: "heap_at (blobs ?st) 0 = Some \<lparr>meta_id = 1, raw = Some 7\<rparr>"
    by (simp_all add: heap_at_def)
  have found: "GetBlob ?w ''y'' = Some 0" by simp
  from C6_CreateBlob_idempotent [OF live new1 new2]
  have "length (LocalBlobs ?w1) \<le> length (LocalBlobs ?w) + 1"
    by blast
  moreover from C6_CreateBlob_idempotent [OF live old old]
  have "length (LocalBlobs ?w) \<le> length (LocalBlobs ?w) + 1"
    by blast
  ultimately show ?thesis
    using live fresh new1 new2 old at1 at0 found by simp
qed

lemma scopes_unfold:
  "scopes w = w # (case shared w of None \<Rightarrow> [] | Some parent \<Rightarrow> scopes parent)"
  by (cases w) (simp split: option.splits)

lemma Blobs_concat: "Blobs w = concat (map LocalBlobs (scopes w))"
  by (induction w rule: Blobs.induct)
    (simp add: LocalBlobs_eq push_names_eq split: option.splits)

lemma count_list_concat_map:
  "count_list (concat (map f ss)) x = sum_list (map (\<lambda>s. count_list (f s) x) ss)"
  by (induction ss) simp_all

lemma count_list_distinct:
  "distinct xs \<Longrightarrow> count_list xs x = (if x \<in> set xs then 1 else 0)"
  by (induction xs) auto

lemma sum_list_indicator:
  "sum_list (map (\<lambda>s. if P s then 1 else 0) ss) = length (filter P ss)"
  by (induction ss) simp_all

text \<open>
  C7. \<open>Blobs\<close> is the list of local names followed by the parent's \<open>Blobs\<close> (nothing
  when there is no parent), hence the local names of every workspace on the parent chain,
  one after the other. A name occurs in it once for every workspace of the chain that
  owns it: nothing is removed. Each map holds a name once, as a \<open>std::map\<close> does.
\<close>

theorem C7_Blobs_concatenation:
  assumes "\<forall>s \<in> set (scopes w). distinct (LocalBlobs s)"
  shows "Blobs w = LocalBlobs w @ (case shared w of None \<Rightarrow> [] | Some parent \<Rightarrow> Blobs parent) \<and>
         Blobs w = concat (map LocalBlobs (scopes w)) \<and>
         count_list (Blobs w) x = length (filter (\<lambda>s. x \<in> set (LocalBlobs s)) (scopes w))"
proof -
  have "count_list (Blobs w) x = sum_list (map (\<lambda>s. count_list (LocalBlobs s) x) (scopes w))"
    by (simp add: Blobs_concat count_list_concat_map)
  also have "map (\<lambda>s. count_list (LocalBlobs s) x) (scopes w) =
             map (\<lambda>s. if x \<in> set (LocalBlobs s) then 1 else 0) (scopes w)"
    using assms by (simp add: count_list_distinct)
  finally have "count_list (Blobs w) x =
                length (filter (\<lambda>s. x \<in> set (LocalBlobs s)) (scopes w))"
    by (simp only: sum_list_indicator)
  then show ?thesis
    using Blobs_unfold [of w] Blobs_concat [of w] by simp
qed

text \<open>
  The child owns \<open>x\<close> and \<open>y\<close>, the parent owns \<open>x\<close>: \<open>x\<close> is listed twice.
\<close>

theorem C7_Blobs_concatenation_witness:
  "distinct (LocalBlobs (Workspace [(''x'', 1), (''y'', 2)] [] (Some (Workspace [(''x'', 0)] [] None None)) None)) \<and>
   distinct (LocalBlobs (Workspace [(''x'', 0)] [] None None)) \<and>
   Blobs (Workspace [(''x'', 1), (''y'', 2)] [] (Some (Workspace [(''x'', 0)] [] None None)) None) =
     [''x'', ''y'', ''x''] \<and>
   count_list (Blobs (Workspace [(''x'', 1), (''y'', 2)] [] (Some (Workspace [(''x'', 0)] [] None None)) None)) ''x'' = 2"
proof -
  let ?parent = "Workspace [(''x'', 0)] [] None None"
  let ?w = "Workspace [(''x'', 1), (''y'', 2)] [] (Some ?parent) None"
  have h: "\<forall>s \<in> set (scopes ?w). distinct (LocalBlobs s)"
    by (simp add: LocalBlobs_eq)
  from C7_Blobs_concatenation [OF h, of "''x''"] show ?thesis
    by (simp add: LocalBlobs_eq push_names_eq)
qed

subsection \<open>Nets\<close>

lemma set_net_map_same [simp]: "set_net_map (net_map w) w = w"
  by (cases w) (simp add: set_net_map_def)

lemma net_map_set_net_map [simp]: "net_map (set_net_map m w) = m"
  by (simp add: set_net_map_def)

lemma set_net_map_twice [simp]: "set_net_map m (set_net_map m' w) = set_net_map m w"
  by (simp add: set_net_map_def)

lemma map_of_delete_same: "map_of (AList.delete k al) k = None"
  by (simp add: delete_conv')

lemma delete_absent: "map_of al k = None \<Longrightarrow> AList.delete k al = al"
  by (simp add: map_of_eq_None_iff)

lemma delete_appended: "map_of al k = None \<Longrightarrow> AList.delete k (al @ [(k, v)]) = al"
  by (simp add: AList.delete_eq map_of_eq_None_iff) (induction al; auto)

lemma heap_at_delete_same: "heap_at (heap_delete h p) p = None"
  by (simp add: heap_at_def heap_delete_def)

lemma erase_net_absent:
  "map_of (net_map w) k = None \<Longrightarrow> erase_net k w st = (w, st)"
  by (simp add: erase_net_def)

lemma erase_net_owned:
  "map_of (net_map w) k = Some (Some p) \<Longrightarrow>
   erase_net k w st = (set_net_map (AList.delete k (net_map w)) w, destroy_net p st)"
  by (simp add: erase_net_def)

lemma erase_net_gone:
  "erase_net k w st = (w1, st1) \<Longrightarrow> map_of (net_map w1) k = None"
  by (auto simp: erase_net_def map_of_delete_same split: option.splits)

lemma erase_net_map:
  "erase_net k w st = (w1, st1) \<Longrightarrow> w1 = set_net_map (AList.delete k (net_map w)) w"
  by (auto simp: erase_net_def delete_absent split: option.splits)

text \<open>
  A call of \<open>CreateNet\<close> that does not throw: the old entry is erased, the
  constructor runs on what is left, and its net is registered if there is one.
\<close>

lemma CreateNet_proceeds:
  assumes named: "has_name net_def"
    and allowed: "overwrite \<or> map_of (net_map w) (NetDef_name net_def) = None"
    and erased: "erase_net (NetDef_name net_def) w st = (w1, st1)"
  shows "CreateNet ctor net_def overwrite w st =
           (case ctor net_def w1 st1 of
              None \<Rightarrow>
                (Inr None, w1, st1\<lparr>events := events st1 @ [NetConstructorCalled net_def]\<rparr>)
            | Some net \<Rightarrow>
                (Inr (Some (length (nets st1))),
                 set_net_map (net_map w1 @ [(NetDef_name net_def, Some (length (nets st1)))]) w1,
                 st1\<lparr>events := events st1 @ [NetConstructorCalled net_def],
                     nets := nets st1 @ [Some net]\<rparr>))"
proof -
  let ?n = "NetDef_name net_def"
  have gone: "map_of (net_map w1) ?n = None"
    using erased by (rule erase_net_gone)
  have first:
    "(if map_of (net_map w) ?n \<noteq> None then erase_net ?n w st else (w, st)) = (w1, st1)"
    using erased by (auto simp: erase_net_absent)
  show ?thesis
  proof (cases "ctor net_def w1 st1")
    case None
    have "erase_net ?n (set_net_map (net_map w1 @ [(?n, None)]) w1) st2 = (w1, st2)" for st2 :: "('a, 'b) Store"
      using gone by (simp add: erase_net_def map_add_def delete_appended)
    then show ?thesis
      using named allowed first gone None
      by (auto simp: CreateNet_def construct_net_def assign_net_def update_absent
          net_map_get_def map_add_def)
  next
    case (Some net)
    then show ?thesis
      using named allowed first gone
      by (auto simp: CreateNet_def construct_net_def assign_net_def update_absent
          net_map_get_def map_add_def heap_new_def)
  qed
qed

lemma CreateNet_refuses:
  assumes "has_name net_def" and "map_of (net_map w) (NetDef_name net_def) \<noteq> None"
  shows "CreateNet ctor net_def False w st =
           (Inl (EnforceNotMet (refuse_message (NetDef_name net_def))), w, st)"
  using assms by (simp add: CreateNet_def)

text \<open>
  C2. In a workspace that holds a live net under the name of the definition,
  \<open>CreateNet\<close> without \<open>overwrite\<close> throws the refusal, and leaves the workspace
  and the store as they were: \<open>GetNet\<close> still returns the same net, the net object is
  the same, and \<open>RunNet\<close> runs it.
\<close>

theorem C2_overwrite_refused:
  assumes named: "has_name net_def"
    and holds: "map_of (net_map w) (NetDef_name net_def) = Some (Some p)"
    and live: "heap_at (nets st) p = Some net"
    and call: "CreateNet ctor net_def False w st = (r, w', st')"
  shows "r = Inl (EnforceNotMet (refuse_message (NetDef_name net_def))) \<and>
         w' = w \<and> st' = st \<and>
         GetNet w' (NetDef_name net_def) = Some p \<and>
         heap_at (nets st') p = Some net \<and>
         RunNet run w' st' (NetDef_name net_def) = Some (run net)"
proof -
  from call CreateNet_refuses [OF named, of w ctor st] holds
  have "r = Inl (EnforceNotMet (refuse_message (NetDef_name net_def)))" "w' = w" "st' = st"
    by simp_all
  then show ?thesis
    using holds live by (simp add: GetNet_def RunNet_def net_map_get_def)
qed

text \<open>
  The workspace holds net \<open>A\<close> under \<open>n\<close>; a definition of type \<open>B\<close> for \<open>n\<close> is refused.
\<close>

theorem C2_overwrite_refused_witness:
  "has_name \<lparr>name_field = Some ''n'', type_field = Some ''B''\<rparr> \<and>
   map_of (net_map (Workspace [] [(''n'', Some 0)] None None))
     (NetDef_name \<lparr>name_field = Some ''n'', type_field = Some ''B''\<rparr>) = Some (Some 0) \<and>
   heap_at [Some ''A''] 0 = Some ''A'' \<and>
   CreateNet (\<lambda>d w st. type_field d) \<lparr>name_field = Some ''n'', type_field = Some ''B''\<rparr> False
     (Workspace [] [(''n'', Some 0)] None None)
     \<lparr>blobs = ([] :: nat Blob option list), nets = [Some ''A''], pools = [], events = []\<rparr> =
     (Inl (EnforceNotMet (refuse_message ''n'')),
      Workspace [] [(''n'', Some 0)] None None,
      \<lparr>blobs = [], nets = [Some ''A''], pools = [], events = []\<rparr>) \<and>
   GetNet (Workspace [] [(''n'', Some 0)] None None) ''n'' = Some 0 \<and>
   RunNet (\<lambda>net. net = ''A'') (Workspace [] [(''n'', Some 0)] None None)
     \<lparr>blobs = ([] :: nat Blob option list), nets = [Some ''A''], pools = [], events = []\<rparr> ''n'' =
     Some True"
proof -
  let ?d = "\<lparr>name_field = Some ''n'', type_field = Some ''B''\<rparr>"
  let ?w = "Workspace [] [(''n'', Some 0)] None None"
  let ?st = "\<lparr>blobs = ([] :: nat Blob option list), nets = [Some ''A''], pools = [],
      events = []\<rparr>"
  have h1: "has_name ?d" by (simp add: has_name_def)
  have h2: "map_of (net_map ?w) (NetDef_name ?d) = Some (Some 0)"
    by (simp add: NetDef_name_def)
  have h3: "heap_at (nets ?st) 0 = Some ''A''" by (simp add: heap_at_def)
  have h4: "CreateNet (\<lambda>d w st. type_field d) ?d False ?w ?st =
      (Inl (EnforceNotMet (refuse_message ''n'')), ?w, ?st)"
    by (simp add: CreateNet_def has_name_def NetDef_name_def)
  from C2_overwrite_refused [OF h1 h2 h3 h4, of "\<lambda>net. net = ''A''"] h1 h2 h3 h4
  show ?thesis by (simp add: NetDef_name_def)
qed

text \<open>
  C3. With \<open>overwrite\<close>, in a workspace that holds a net under the name of the
  definition, the entry is erased and the old net destroyed first; the constructor is
  then called on the workspace and store in which the old net is gone, and what it
  yields is the result. The events of the call are the destruction, then the
  constructor call. The call does what a call without \<open>overwrite\<close> does after the
  old net has been erased.
\<close>

theorem C3_destroy_before_construct:
  assumes named: "has_name net_def"
    and holds: "map_of (net_map w) (NetDef_name net_def) = Some (Some p)"
    and call: "CreateNet ctor net_def True w st = (r, w', st')"
  shows "\<exists>w1 st1.
           erase_net (NetDef_name net_def) w st = (w1, st1) \<and>
           map_of (net_map w1) (NetDef_name net_def) = None \<and>
           heap_at (nets st1) p = None \<and>
           events st1 = events st @ [NetDestroyed p] \<and>
           events st' = events st @ [NetDestroyed p, NetConstructorCalled net_def] \<and>
           r = Inr (map_option (\<lambda>net. length (nets st1)) (ctor net_def w1 st1)) \<and>
           (\<forall>q. r = Inr (Some q) \<longrightarrow> heap_at (nets st') q = ctor net_def w1 st1) \<and>
           CreateNet ctor net_def True w st = CreateNet ctor net_def False w1 st1"
proof -
  let ?n = "NetDef_name net_def"
  let ?w1 = "set_net_map (AList.delete ?n (net_map w)) w"
  let ?st1 = "destroy_net p st"
  have erased: "erase_net ?n w st = (?w1, ?st1)"
    using holds by (rule erase_net_owned)
  have gone: "map_of (net_map ?w1) ?n = None"
    by (simp add: map_of_delete_same)
  have again: "erase_net ?n ?w1 ?st1 = (?w1, ?st1)"
    using gone by (rule erase_net_absent)
  have dead: "heap_at (nets ?st1) p = None"
    by (simp add: destroy_net_def heap_at_delete_same)
  have ev1: "events ?st1 = events st @ [NetDestroyed p]"
    by (simp add: destroy_net_def)
  have same: "CreateNet ctor net_def True w st = CreateNet ctor net_def False ?w1 ?st1"
    using gone
    by (simp add: CreateNet_proceeds [OF named _ erased] CreateNet_proceeds [OF named _ again])
  have res: "(r, w', st') =
      (case ctor net_def ?w1 ?st1 of
         None \<Rightarrow>
           (Inr None, ?w1, ?st1\<lparr>events := events ?st1 @ [NetConstructorCalled net_def]\<rparr>)
       | Some net \<Rightarrow>
           (Inr (Some (length (nets ?st1))),
            set_net_map (net_map ?w1 @ [(?n, Some (length (nets ?st1)))]) ?w1,
            ?st1\<lparr>events := events ?st1 @ [NetConstructorCalled net_def],
                nets := nets ?st1 @ [Some net]\<rparr>))"
    using call CreateNet_proceeds [OF named _ erased, of True ctor] by simp
  have "events st' = events st @ [NetDestroyed p, NetConstructorCalled net_def]"
    using res ev1 by (auto split: option.splits)
  moreover have "r = Inr (map_option (\<lambda>net. length (nets ?st1)) (ctor net_def ?w1 ?st1))"
    using res by (auto split: option.splits)
  moreover have "\<forall>q. r = Inr (Some q) \<longrightarrow> heap_at (nets st') q = ctor net_def ?w1 ?st1"
    using res by (auto simp: heap_at_fresh split: option.splits)
  ultimately show ?thesis
    using erased gone dead ev1 same by blast
qed


text \<open>
  A constructor that yields a net only when no other net is alive succeeds in replacing
  net \<open>A\<close>: \<open>A\<close> was destroyed before it ran.
\<close>

theorem C3_destroy_before_construct_witness:
  "has_name \<lparr>name_field = Some ''n'', type_field = Some ''B''\<rparr> \<and>
   map_of (net_map (Workspace [] [(''n'', Some 0)] None None))
     (NetDef_name \<lparr>name_field = Some ''n'', type_field = Some ''B''\<rparr>) = Some (Some 0) \<and>
   CreateNet (\<lambda>d w st. if list_all (\<lambda>e. e = None) (nets st) then type_field d else None)
     \<lparr>name_field = Some ''n'', type_field = Some ''B''\<rparr> True
     (Workspace [] [(''n'', Some 0)] None None)
     \<lparr>blobs = ([] :: nat Blob option list), nets = [Some ''A''], pools = [], events = []\<rparr> =
     (Inr (Some 1),
      Workspace [] [(''n'', Some 1)] None None,
      \<lparr>blobs = [], nets = [None, Some ''B''], pools = [],
       events = [NetDestroyed 0,
                 NetConstructorCalled \<lparr>name_field = Some ''n'', type_field = Some ''B''\<rparr>]\<rparr>) \<and>
   erase_net ''n'' (Workspace [] [(''n'', Some 0)] None None)
     \<lparr>blobs = ([] :: nat Blob option list), nets = [Some ''A''], pools = [], events = []\<rparr> =
     (Workspace [] [] None None,
      \<lparr>blobs = [], nets = [None], pools = [], events = [NetDestroyed 0]\<rparr>)"
proof -
  let ?d = "\<lparr>name_field = Some ''n'', type_field = Some ''B''\<rparr>"
  let ?w = "Workspace [] [(''n'', Some 0)] None None"
  let ?st = "\<lparr>blobs = ([] :: nat Blob option list), nets = [Some ''A''], pools = [],
      events = []\<rparr>"
  let ?ctor = "\<lambda>d (w :: Workspace) (st :: (nat, string) Store).
      if list_all (\<lambda>e. e = None) (nets st) then type_field d else None"
  have h1: "has_name ?d" by (simp add: has_name_def)
  have h2: "map_of (net_map ?w) (NetDef_name ?d) = Some (Some 0)"
    by (simp add: NetDef_name_def)
  have e: "erase_net ''n'' ?w ?st =
      (Workspace [] [] None None,
       \<lparr>blobs = [], nets = [None], pools = [], events = [NetDestroyed 0]\<rparr>)"
    by (simp add: erase_net_def set_net_map_def destroy_net_def heap_delete_def)
  have h3: "CreateNet ?ctor ?d True ?w ?st =
      (Inr (Some 1), Workspace [] [(''n'', Some 1)] None None,
       \<lparr>blobs = [], nets = [None, Some ''B''], pools = [],
        events = [NetDestroyed 0, NetConstructorCalled ?d]\<rparr>)"
    by (simp add: CreateNet_def has_name_def NetDef_name_def e construct_net_def
        assign_net_def net_map_get_def heap_new_def set_net_map_def)
  from C3_destroy_before_construct [OF h1 h2 h3] h1 h2 h3 e
  show ?thesis by simp
qed

text \<open>
  C4. When \<open>CreateNet\<close> gets as far as the constructor and the constructor yields
  null, \<open>CreateNet\<close> returns null, \<open>GetNet\<close> for the name returns null, and the
  registry is the one before the call without any entry for the name: no entry is
  left under the name, null or other, and no other entry is touched.
\<close>

theorem C4_failed_construction_leaves_no_entry:
  assumes named: "has_name net_def"
    and allowed: "overwrite \<or> map_of (net_map w) (NetDef_name net_def) = None"
    and fails: "ctor net_def (fst (erase_net (NetDef_name net_def) w st))
                  (snd (erase_net (NetDef_name net_def) w st)) = None"
    and call: "CreateNet ctor net_def overwrite w st = (r, w', st')"
  shows "r = Inr None \<and>
         GetNet w' (NetDef_name net_def) = None \<and>
         map_of (net_map w') (NetDef_name net_def) = None \<and>
         net_map w' = AList.delete (NetDef_name net_def) (net_map w) \<and>
         set (net_map w') \<subseteq> set (net_map w)"
proof -
  let ?n = "NetDef_name net_def"
  obtain w1 st1 where erased: "erase_net ?n w st = (w1, st1)"
    by (cases "erase_net ?n w st")
  have "ctor net_def w1 st1 = None"
    using fails erased by simp
  with call CreateNet_proceeds [OF named allowed erased, of ctor]
  have r: "r = Inr None" and w': "w' = w1"
    by simp_all
  have gone: "map_of (net_map w') ?n = None"
    using erased w' by (simp add: erase_net_gone)
  have "net_map w' = AList.delete ?n (net_map w)"
    using erase_net_map [OF erased] w' by simp
  moreover have "set (AList.delete ?n (net_map w)) \<subseteq> set (net_map w)"
    by (auto simp: AList.delete_eq)
  ultimately show ?thesis
    using r gone by (simp add: GetNet_def)
qed

text \<open>
  A definition of an unknown type under a new name: null is returned, and the registry
  holds what it held.
\<close>

theorem C4_failed_construction_leaves_no_entry_witness:
  "has_name \<lparr>name_field = Some ''n'', type_field = Some ''Unknown''\<rparr> \<and>
   map_of (net_map (Workspace [] [(''m'', Some 0)] None None))
     (NetDef_name \<lparr>name_field = Some ''n'', type_field = Some ''Unknown''\<rparr>) = None \<and>
   CreateNet (\<lambda>d w st. if type_field d = Some ''Unknown'' then None else type_field d)
     \<lparr>name_field = Some ''n'', type_field = Some ''Unknown''\<rparr> False
     (Workspace [] [(''m'', Some 0)] None None)
     \<lparr>blobs = ([] :: nat Blob option list), nets = [Some ''A''], pools = [], events = []\<rparr> =
     (Inr None,
      Workspace [] [(''m'', Some 0)] None None,
      \<lparr>blobs = [], nets = [Some ''A''], pools = [],
       events = [NetConstructorCalled
                   \<lparr>name_field = Some ''n'', type_field = Some ''Unknown''\<rparr>]\<rparr>) \<and>
   GetNet (Workspace [] [(''m'', Some 0)] None None) ''n'' = None"
proof -
  let ?d = "\<lparr>name_field = Some ''n'', type_field = Some ''Unknown''\<rparr>"
  let ?w = "Workspace [] [(''m'', Some 0)] None None"
  let ?st = "\<lparr>blobs = ([] :: nat Blob option list), nets = [Some ''A''], pools = [],
      events = []\<rparr>"
  let ?ctor = "\<lambda>d (w :: Workspace) (st :: (nat, string) Store).
      if type_field d = Some ''Unknown'' then None else type_field d"
  have h1: "has_name ?d" by (simp add: has_name_def)
  have n: "map_of (net_map ?w) (NetDef_name ?d) = None" by (simp add: NetDef_name_def)
  have h2: "False \<or> map_of (net_map ?w) (NetDef_name ?d) = None" using n by simp
  have h3: "?ctor ?d (fst (erase_net (NetDef_name ?d) ?w ?st))
              (snd (erase_net (NetDef_name ?d) ?w ?st)) = None"
    by simp
  have h4: "CreateNet ?ctor ?d False ?w ?st =
      (Inr None, ?w, \<lparr>blobs = [], nets = [Some ''A''], pools = [],
        events = [NetConstructorCalled ?d]\<rparr>)"
    by (simp add: CreateNet_def has_name_def NetDef_name_def construct_net_def
        assign_net_def net_map_get_def erase_net_def set_net_map_def)
  from C4_failed_construction_leaves_no_entry [OF h1 h2 h3 h4] h1 n h4
  show ?thesis by (simp add: NetDef_name_def)
qed


text \<open>
  C5, as the code has it. A definition whose name field is not set makes
  \<open>CreateNet\<close> throw at once, and the workspace, its registry and the store are
  unchanged. The test is \<open>has_name()\<close>: the name has to be present, not non-empty.
\<close>

theorem C5_unnamed_net_rejected:
  assumes "\<not> has_name net_def"
    and "CreateNet ctor net_def overwrite w st = (r, w', st')"
  shows "r = Inl (EnforceNotMet name_missing_message) \<and> w' = w \<and> st' = st \<and>
         net_map w' = net_map w"
  using assms by (simp add: CreateNet_def)

text \<open>
  A definition with no name field is rejected, even with \<open>overwrite\<close>.
\<close>

theorem C5_unnamed_net_rejected_witness:
  "\<not> has_name \<lparr>name_field = None, type_field = Some ''B''\<rparr> \<and>
   CreateNet (\<lambda>d w st. type_field d) \<lparr>name_field = None, type_field = Some ''B''\<rparr> True
     (Workspace [] [(''n'', Some 0)] None None)
     \<lparr>blobs = ([] :: nat Blob option list), nets = [Some ''A''], pools = [], events = []\<rparr> =
     (Inl (EnforceNotMet ''Net definition should have a name.''),
      Workspace [] [(''n'', Some 0)] None None,
      \<lparr>blobs = [], nets = [Some ''A''], pools = [], events = []\<rparr>)"
proof -
  let ?d = "\<lparr>name_field = None, type_field = Some ''B''\<rparr>"
  let ?w = "Workspace [] [(''n'', Some 0)] None None"
  let ?st = "\<lparr>blobs = ([] :: nat Blob option list), nets = [Some ''A''], pools = [],
      events = []\<rparr>"
  have h1: "\<not> has_name ?d" by (simp add: has_name_def)
  have h2: "CreateNet (\<lambda>d w st. type_field d) ?d True ?w ?st =
      (Inl (EnforceNotMet ''Net definition should have a name.''), ?w, ?st)"
    by (simp add: CreateNet_def has_name_def name_missing_message_def)
  from C5_unnamed_net_rejected [OF h1 h2] h1 h2 show ?thesis by simp
qed

text \<open>
  C5 as stated fails on a definition whose name field is set to the empty string:
  \<open>has_name()\<close> holds, nothing is thrown, and the net is registered under the empty
  name.
\<close>

theorem C5_empty_name_accepted:
  "name_field \<lparr>name_field = Some [], type_field = Some ''B''\<rparr> = Some [] \<and>
   NetDef_name \<lparr>name_field = Some [], type_field = Some ''B''\<rparr> = [] \<and>
   CreateNet (\<lambda>d w st. type_field d) \<lparr>name_field = Some [], type_field = Some ''B''\<rparr> False
     (Workspace [] [] None None)
     \<lparr>blobs = ([] :: nat Blob option list), nets = [], pools = [], events = []\<rparr> =
     (Inr (Some 0),
      Workspace [] [([], Some 0)] None None,
      \<lparr>blobs = [], nets = [Some ''B''], pools = [],
       events = [NetConstructorCalled \<lparr>name_field = Some [], type_field = Some ''B''\<rparr>]\<rparr>) \<and>
   net_map (Workspace [] [([], Some 0)] None None) \<noteq> net_map (Workspace [] [] None None)"
  by (simp add: CreateNet_def has_name_def NetDef_name_def construct_net_def
      assign_net_def net_map_get_def heap_new_def set_net_map_def)

text \<open>
  C10. With \<open>overwrite\<close>, in a workspace that holds a live net under the name of
  the definition, when the constructor yields null: null is returned, the old net has
  been destroyed before the constructor was called, no net object has been created, no
  entry is left under the name, and \<open>RunNet\<close> reports that there is no such net.
\<close>

theorem C10_failed_overwrite_loses_old_net:
  assumes named: "has_name net_def"
    and holds: "map_of (net_map w) (NetDef_name net_def) = Some (Some p)"
    and live: "heap_at (nets st) p = Some net"
    and fails: "ctor net_def (fst (erase_net (NetDef_name net_def) w st))
                  (snd (erase_net (NetDef_name net_def) w st)) = None"
    and call: "CreateNet ctor net_def True w st = (r, w', st')"
  shows "r = Inr None \<and>
         heap_at (nets st') p = None \<and>
         nets st' = heap_delete (nets st) p \<and>
         events st' = events st @ [NetDestroyed p, NetConstructorCalled net_def] \<and>
         GetNet w' (NetDef_name net_def) = None \<and>
         map_of (net_map w') (NetDef_name net_def) = None \<and>
         RunNet run w' st' (NetDef_name net_def) = Some False"
proof -
  let ?n = "NetDef_name net_def"
  let ?w1 = "set_net_map (AList.delete ?n (net_map w)) w"
  let ?st1 = "destroy_net p st"
  have erased: "erase_net ?n w st = (?w1, ?st1)"
    using holds by (rule erase_net_owned)
  have "ctor net_def ?w1 ?st1 = None"
    using fails erased by simp
  with call CreateNet_proceeds [OF named _ erased, of True ctor]
  have r: "r = Inr None" and w': "w' = ?w1"
    and st': "st' = ?st1\<lparr>events := events ?st1 @ [NetConstructorCalled net_def]\<rparr>"
    by simp_all
  have gone: "map_of (net_map w') ?n = None"
    by (simp add: w' map_of_delete_same)
  have "nets st' = heap_delete (nets st) p"
    by (simp add: st' destroy_net_def)
  moreover have "events st' = events st @ [NetDestroyed p, NetConstructorCalled net_def]"
    by (simp add: st' destroy_net_def)
  ultimately show ?thesis
    using r gone by (simp add: GetNet_def RunNet_def heap_at_delete_same)
qed

text \<open>
  Net \<open>A\<close> under \<open>n\<close> could be run before the call; after the failed overwrite it is
  gone and nothing stands in its place.
\<close>

theorem C10_failed_overwrite_loses_old_net_witness:
  "has_name \<lparr>name_field = Some ''n'', type_field = Some ''Unknown''\<rparr> \<and>
   map_of (net_map (Workspace [] [(''n'', Some 0)] None None))
     (NetDef_name \<lparr>name_field = Some ''n'', type_field = Some ''Unknown''\<rparr>) = Some (Some 0) \<and>
   heap_at [Some ''A''] 0 = Some ''A'' \<and>
   RunNet (\<lambda>net. net = ''A'') (Workspace [] [(''n'', Some 0)] None None)
     \<lparr>blobs = ([] :: nat Blob option list), nets = [Some ''A''], pools = [], events = []\<rparr> ''n'' =
     Some True \<and>
   CreateNet (\<lambda>d w st. if type_field d = Some ''Unknown'' then None else type_field d)
     \<lparr>name_field = Some ''n'', type_field = Some ''Unknown''\<rparr> True
     (Workspace [] [(''n'', Some 0)] None None)
     \<lparr>blobs = ([] :: nat Blob option list), nets = [Some ''A''], pools = [], events = []\<rparr> =
     (Inr None,
      Workspace [] [] None None,
      \<lparr>blobs = [], nets = [None], pools = [],
       events = [NetDestroyed 0,
                 NetConstructorCalled
                   \<lparr>name_field = Some ''n'', type_field = Some ''Unknown''\<rparr>]\<rparr>) \<and>
   GetNet (Workspace [] [] None None) ''n'' = None \<and>
   RunNet (\<lambda>net. net = ''A'') (Workspace [] [] None None)
     \<lparr>blobs = ([] :: nat Blob option list), nets = [None], pools = [],
      events = [NetDestroyed 0,
                NetConstructorCalled
                  \<lparr>name_field = Some ''n'', type_field = Some ''Unknown''\<rparr>]\<rparr> ''n'' =
     Some False"
proof -
  let ?d = "\<lparr>name_field = Some ''n'', type_field = Some ''Unknown''\<rparr>"
  let ?w = "Workspace [] [(''n'', Some 0)] None None"
  let ?st = "\<lparr>blobs = ([] :: nat Blob option list), nets = [Some ''A''], pools = [],
      events = []\<rparr>"
  let ?ctor = "\<lambda>d (w :: Workspace) (st :: (nat, string) Store).
      if type_field d = Some ''Unknown'' then None else type_field d"
  have h1: "has_name ?d" by (simp add: has_name_def)
  have h2: "map_of (net_map ?w) (NetDef_name ?d) = Some (Some 0)"
    by (simp add: NetDef_name_def)
  have h3: "heap_at (nets ?st) 0 = Some ''A''" by (simp add: heap_at_def)
  have h4: "?ctor ?d (fst (erase_net (NetDef_name ?d) ?w ?st))
              (snd (erase_net (NetDef_name ?d) ?w ?st)) = None"
    by simp
  have h5: "CreateNet ?ctor ?d True ?w ?st =
      (Inr None, Workspace [] [] None None,
       \<lparr>blobs = [], nets = [None], pools = [],
        events = [NetDestroyed 0, NetConstructorCalled ?d]\<rparr>)"
    by (simp add: CreateNet_def has_name_def NetDef_name_def construct_net_def
        assign_net_def net_map_get_def erase_net_def set_net_map_def destroy_net_def
        heap_delete_def)
  have before: "RunNet (\<lambda>net. net = ''A'') ?w ?st ''n'' = Some True"
    by (simp add: RunNet_def net_map_get_def heap_at_def)
  from C10_failed_overwrite_loses_old_net [OF h1 h2 h3 h4 h5, of "\<lambda>net. net = ''A''"]
    h1 h2 h3 h5 before
  show ?thesis by (simp add: NetDef_name_def destroy_net_def heap_delete_def)
qed

subsection \<open>The thread pool\<close>

text \<open>
  The \<open>int numThreads\<close> holds the count that \<open>hardware_concurrency()\<close> returns,
  for every count that fits an \<open>int\<close>.
\<close>

lemma numThreads_detected: "unat (hc :: 32 word) < 2 ^ 31 \<Longrightarrow> sint hc = int (unat hc)"
proof -
  assume "unat hc < 2 ^ 31"
  then have "int (unat hc) < int (2 ^ 31)"
    by (simp only: of_nat_less_iff)
  then have less: "uint hc < 2 ^ 31"
    by (simp only: uint_nat of_nat_power of_nat_numeral)
  have "- (2 ^ 31) \<le> (0 :: int)" by simp
  also have "0 \<le> uint hc" by simp
  finally have "signed_take_bit 31 (uint hc) = uint hc"
    using less by (rule signed_take_bit_int_eq_self)
  moreover have "LENGTH(32) - Suc 0 = 31" by simp
  ultimately have "sint hc = uint hc"
    by (simp only: sint_uint)
  then show ?thesis
    by (simp only: uint_nat)
qed

text \<open>
  Only \<open>GetThreadPool\<close> writes \<open>thread_pool_\<close>: creating blobs and nets leaves the
  pointer and the pool alone.
\<close>

lemma CreateBlob_keeps_thread_pool:
  "CreateBlob w st n = (r, w', st') \<Longrightarrow> thread_pool w' = thread_pool w \<and> pools st' = pools st"
  by (auto simp: CreateBlob_def assign_blob_def set_blob_map_def heap_new_def
      split: if_splits option.splits)

lemma erase_net_keeps_thread_pool:
  "erase_net k w st = (w', st') \<Longrightarrow> thread_pool w' = thread_pool w \<and> pools st' = pools st"
  by (auto simp: erase_net_def set_net_map_def destroy_net_def split: option.splits)

lemma CreateNet_keeps_thread_pool:
  assumes "CreateNet ctor net_def overwrite w st = (r, w', st')"
  shows "thread_pool w' = thread_pool w \<and> pools st' = pools st"
proof (cases "has_name net_def \<and> (overwrite \<or> map_of (net_map w) (NetDef_name net_def) = None)")
  case True
  obtain w1 st1 where erased: "erase_net (NetDef_name net_def) w st = (w1, st1)"
    by (cases "erase_net (NetDef_name net_def) w st")
  from True have named: "has_name net_def"
    and allowed: "overwrite \<or> map_of (net_map w) (NetDef_name net_def) = None"
    by simp_all
  from assms CreateNet_proceeds [OF named allowed erased, of ctor]
    erase_net_keeps_thread_pool [OF erased]
  show ?thesis
    by (auto simp: set_net_map_def split: option.splits)
next
  case False
  with assms show ?thesis
    by (auto simp: CreateNet_def split: if_splits)
qed

text \<open>
  C8. The first \<open>GetThreadPool\<close> of a workspace constructs a pool. With \<open>n\<close> the
  detected concurrency as \<open>int numThreads\<close> holds it, the pool has \<open>n\<close> threads when
  the cap flag is off; when it is on, \<open>n\<close> threads for \<open>n \<le> 3\<close>, 3 threads for
  \<open>n\<close> from 4 to 5, and \<open>n div 2\<close> threads above. A later call, in whatever state
  the workspace is by then with its pool, and whatever the concurrency and the flag
  are, returns the same pool and changes nothing.
\<close>

theorem C8_thread_pool_size:
  assumes nopool: "thread_pool w = None"
    and first: "GetThreadPool hc flag w st = (p, w1, st1)"
    and kept: "thread_pool w' = Some p"
    and later: "GetThreadPool hc' flag' w' st' = (p', w2, st2)"
  shows "(\<exists>pool. heap_at (pools st1) p = Some pool \<and>
            (flag = 0 \<longrightarrow> numThreads pool = sint hc) \<and>
            (flag \<noteq> 0 \<and> sint hc \<le> 3 \<longrightarrow> numThreads pool = sint hc) \<and>
            (flag \<noteq> 0 \<and> 4 \<le> sint hc \<and> sint hc \<le> 5 \<longrightarrow> numThreads pool = 3) \<and>
            (flag \<noteq> 0 \<and> 5 < sint hc \<longrightarrow> numThreads pool = sint hc div 2)) \<and>
         thread_pool w1 = Some p \<and>
         p' = p \<and> w2 = w' \<and> st2 = st'"
proof -
  let ?n = "if flag \<noteq> 0
            then (if sint hc \<le> 3 then sint hc else if sint hc \<le> 5 then 3 else sint hc sdiv 2)
            else sint hc"
  from first nopool
  have p: "p = length (pools st)"
    and w1: "w1 = set_thread_pool (Some p) w"
    and st1: "st1 = st\<lparr>pools := pools st @ [Some \<lparr>numThreads = ?n\<rparr>]\<rparr>"
    by (auto simp: GetThreadPool_def heap_new_def Let_def)
  have pool: "heap_at (pools st1) p = Some \<lparr>numThreads = ?n\<rparr>"
    by (simp add: st1 p heap_at_fresh)
  have half: "5 < sint hc \<Longrightarrow> sint hc sdiv 2 = sint hc div 2"
    by (simp add: signed_divide_int_def)
  have set: "thread_pool w1 = Some p"
    by (simp add: w1 set_thread_pool_def)
  from later kept have "p' = p" "w2 = w'" "st2 = st'"
    by (simp_all add: GetThreadPool_def)
  then show ?thesis
    using pool set half by auto
qed

text \<open>
  Eight detected threads with the cap on give a pool of four; after a blob has been
  created, a call that sees two threads and no cap returns that pool.
\<close>

theorem C8_thread_pool_size_witness:
  "thread_pool (Workspace [] [] None None) = None \<and>
   GetThreadPool 8 1 (Workspace [] [] None None)
     \<lparr>blobs = ([] :: nat Blob option list), nets = ([] :: nat option list), pools = [],
      events = []\<rparr> =
     (0, Workspace [] [] None (Some 0),
      \<lparr>blobs = [], nets = [], pools = [Some \<lparr>numThreads = 4\<rparr>], events = []\<rparr>) \<and>
   CreateBlob (Workspace [] [] None (Some 0))
     \<lparr>blobs = ([] :: nat Blob option list), nets = ([] :: nat option list),
      pools = [Some \<lparr>numThreads = 4\<rparr>], events = []\<rparr> ''x'' =
     (Some 0, Workspace [(''x'', 0)] [] None (Some 0),
      \<lparr>blobs = [Some new_Blob], nets = [], pools = [Some \<lparr>numThreads = 4\<rparr>], events = []\<rparr>) \<and>
   thread_pool (Workspace [(''x'', 0)] [] None (Some 0)) = Some 0 \<and>
   GetThreadPool 2 0 (Workspace [(''x'', 0)] [] None (Some 0))
     \<lparr>blobs = [Some (new_Blob :: nat Blob)], nets = ([] :: nat option list),
      pools = [Some \<lparr>numThreads = 4\<rparr>], events = []\<rparr> =
     (0, Workspace [(''x'', 0)] [] None (Some 0),
      \<lparr>blobs = [Some new_Blob], nets = [], pools = [Some \<lparr>numThreads = 4\<rparr>], events = []\<rparr>) \<and>
   (1::int) \<noteq> 0 \<and> 5 < sint (8 :: 32 word) \<and> sint (8 :: 32 word) div 2 = 4"
proof -
  let ?w = "Workspace [] [] None None"
  let ?st = "\<lparr>blobs = ([] :: nat Blob option list), nets = ([] :: nat option list), pools = [],
      events = []\<rparr>"
  let ?w1 = "Workspace [] [] None (Some 0)"
  let ?st1 = "\<lparr>blobs = ([] :: nat Blob option list), nets = ([] :: nat option list),
      pools = [Some \<lparr>numThreads = 4\<rparr>], events = []\<rparr>"
  let ?w2 = "Workspace [(''x'', 0)] [] None (Some 0)"
  let ?st2 = "\<lparr>blobs = [Some (new_Blob :: nat Blob)], nets = ([] :: nat option list),
      pools = [Some \<lparr>numThreads = 4\<rparr>], events = []\<rparr>"
  have h1: "thread_pool ?w = None" by simp
  have h2: "GetThreadPool 8 1 ?w ?st = (0, ?w1, ?st1)"
    by (simp add: GetThreadPool_def heap_new_def set_thread_pool_def signed_divide_int_def)
  have between: "CreateBlob ?w1 ?st1 ''x'' = (Some 0, ?w2, ?st2)"
    by (simp add: CreateBlob_def assign_blob_def heap_new_def set_blob_map_def)
  have h3: "thread_pool ?w2 = Some 0" by simp
  have h4: "GetThreadPool 2 0 ?w2 ?st2 = (0, ?w2, ?st2)"
    by (simp add: GetThreadPool_def)
  from C8_thread_pool_size [OF h1 h2 h3 h4] h1 h2 between h3 h4 show ?thesis
    by simp
qed

subsection \<open>The report of blob sizes\<close>

lemma GetBlob_entry:
  "distinct (map fst (blob_map w)) \<Longrightarrow> (n, p) \<in> set (blob_map w) \<Longrightarrow> GetBlob w n = Some p"
  by (simp add: GetBlob_local)

lemma credited_capacity_Some:
  "credited_capacity reg b = Some c \<longleftrightarrow>
     (\<exists>f. reg (meta_id b) = Some f \<and>
          c = (if fst (snd (f (raw b))) then 0 else snd (snd (f (raw b)))))"
  by (auto simp: credited_capacity_def split: option.splits prod.splits)

lemma credited_sizes_Cons:
  "credited_sizes reg st ((n, p) # es) =
     (case heap_at (blobs st) p of
        None \<Rightarrow> credited_sizes reg st es
      | Some b \<Rightarrow>
          (case credited_capacity reg b of
             None \<Rightarrow> credited_sizes reg st es
           | Some c \<Rightarrow> (c, n) # credited_sizes reg st es))"
  by (simp add: credited_sizes_def split: option.splits)

lemma credited_sizes_member:
  assumes "(c, n) \<in> set (credited_sizes reg st m)"
  shows "\<exists>p b. (n, p) \<in> set m \<and> heap_at (blobs st) p = Some b \<and>
               credited_capacity reg b = Some c"
  using assms
  by (induction m) (auto simp: credited_sizes_Cons credited_sizes_def split: option.splits)

text \<open>The first loop computes the credited pairs and their sum.\<close>

lemma collect_sizes_eq:
  assumes "distinct (map fst (blob_map w))"
    and "set es \<subseteq> set (blob_map w)"
    and "list_all (\<lambda>(n, p). heap_at (blobs st) p \<noteq> None) es"
  shows "collect_sizes reg w st (map fst es) (tot, acc) =
           Inr (tot + sum_list (map fst (credited_sizes reg st es)),
                acc @ credited_sizes reg st es)"
  using assms(2,3)
proof (induction es arbitrary: tot acc)
  case Nil
  then show ?case by (simp add: credited_sizes_def)
next
  case (Cons e es)
  obtain n p where e: "e = (n, p)" by (cases e)
  from Cons.prems e have "(n, p) \<in> set (blob_map w)" by simp
  then have get: "GetBlob w n = Some p"
    using assms(1) by (simp add: GetBlob_entry)
  from Cons.prems e obtain b where b: "heap_at (blobs st) p = Some b" by auto
  have rest: "collect_sizes reg w st (map fst es) (tot', acc') =
           Inr (tot' + sum_list (map fst (credited_sizes reg st es)),
                acc' @ credited_sizes reg st es)" for tot' acc'
    using Cons.IH Cons.prems by simp
  show ?case
  proof (cases "reg (meta_id b)")
    case None
    then show ?thesis
      by (simp add: e get b rest credited_sizes_Cons credited_capacity_def)
  next
    case (Some f)
    then show ?thesis
      by (simp add: e get b rest credited_sizes_Cons credited_capacity_def add.assoc
          split: prod.splits)
  qed
qed

text \<open>The second loop prints the pairs it is given, in their order.\<close>

lemma print_lines_ok:
  assumes "\<forall>sb \<in> set ys. \<exists>p b f. GetBlob w (snd sb) = Some p \<and>
             heap_at (blobs st) p = Some b \<and> reg (meta_id b) = Some f"
  shows "\<exists>ls. print_lines reg w st cumtotal ys = Inr ls \<and>
              map (\<lambda>l. (line_capacity l, line_name l)) ls = ys \<and>
              (\<forall>l \<in> set ls. line_percentage l =
                 (if 0 < cumtotal then Ratio_percent (line_capacity l) cumtotal
                  else Zero_percent))"
  using assms
proof (induction ys)
  case Nil
  then show ?case by simp
next
  case (Cons sb ys)
  from Cons.prems obtain p b f where
    "GetBlob w (snd sb) = Some p" "heap_at (blobs st) p = Some b" "reg (meta_id b) = Some f"
    by auto
  moreover from Cons.IH Cons.prems obtain ls where
    "print_lines reg w st cumtotal ys = Inr ls"
    "map (\<lambda>l. (line_capacity l, line_name l)) ls = ys"
    "\<forall>l \<in> set ls. line_percentage l =
       (if 0 < cumtotal then Ratio_percent (line_capacity l) cumtotal else Zero_percent)"
    by auto
  ultimately show ?case
    by (simp split: prod.splits)
qed


text \<open>
  C9, as the code has it. When every local entry points to a live blob, and for every
  result \<open>std::sort\<close> may give, \<open>PrintBlobSizes\<close> prints the two header lines, one
  line per local blob whose type has a shape function, and the total. The lines are a
  permutation of the credited pairs, in order of non-increasing credited capacity; the
  capacity of a line is what the shape function of its blob reports, or zero when the
  function reports shared data; the percentage is the zero literal when the total is
  zero. Nothing fixes the order of lines of equal capacity.
\<close>

theorem C9_report_ranking:
  assumes live: "local_blobs_live w st"
    and sorted: "std_sort_post (credited_sizes reg st (blob_map w))
                   (std_sort (credited_sizes reg st (blob_map w)))"
  shows "\<exists>ls. PrintBlobSizes std_sort reg w st =
                Inr ([Header ''---- Workspace blobs: ---- '',
                      Header ''name;current shape;capacity bytes;percentage''] @ ls @
                     [Total_line (sum_list (map fst (credited_sizes reg st (blob_map w))))]) \<and>
              mset (map (\<lambda>l. (line_capacity l, line_name l)) ls) =
                mset (credited_sizes reg st (blob_map w)) \<and>
              sorted_wrt (\<lambda>a b. b \<le> a) (map line_capacity ls) \<and>
              (\<forall>l \<in> set ls. \<exists>p b f.
                 map_of (blob_map w) (line_name l) = Some p \<and>
                 heap_at (blobs st) p = Some b \<and>
                 reg (meta_id b) = Some f \<and>
                 line_capacity l =
                   (if fst (snd (f (raw b))) then 0 else snd (snd (f (raw b))))) \<and>
              (\<forall>l \<in> set ls. line_percentage l =
                 (if sum_list (map fst (credited_sizes reg st (blob_map w))) = 0
                  then Zero_percent
                  else Ratio_percent (line_capacity l)
                         (sum_list (map fst (credited_sizes reg st (blob_map w))))))"
proof -
  let ?sizes = "credited_sizes reg st (blob_map w)"
  let ?total = "sum_list (map fst ?sizes)"
  let ?key = "\<lambda>l. (line_capacity l, line_name l)"
  have dist: "distinct (map fst (blob_map w))"
    and alive: "list_all (\<lambda>(n, p). heap_at (blobs st) p \<noteq> None) (blob_map w)"
    using live by (simp_all add: local_blobs_live_def)
  have first: "collect_sizes reg w st (LocalBlobs w) (0, []) = Inr (?total, ?sizes)"
    using collect_sizes_eq [OF dist subset_refl alive, of reg 0 "[]"]
    by (simp add: LocalBlobs_eq)
  have perm: "mset (std_sort ?sizes) = mset ?sizes"
    and desc: "sorted_wrt (\<lambda>a b. \<not> larger_first b a) (std_sort ?sizes)"
    using sorted by (simp_all add: std_sort_post_def)
  have same_set: "set (std_sort ?sizes) = set ?sizes"
    using perm by (rule mset_eq_setD)
  have known: "\<exists>p b f. map_of (blob_map w) (snd sb) = Some p \<and>
                 heap_at (blobs st) p = Some b \<and> reg (meta_id b) = Some f \<and>
                 fst sb = (if fst (snd (f (raw b))) then 0 else snd (snd (f (raw b))))"
    if "sb \<in> set (std_sort ?sizes)" for sb
  proof -
    from that same_set have "(fst sb, snd sb) \<in> set ?sizes" by simp
    from credited_sizes_member [OF this] obtain p b where
      "(snd sb, p) \<in> set (blob_map w)" "heap_at (blobs st) p = Some b"
      "credited_capacity reg b = Some (fst sb)"
      by blast
    then show ?thesis
      using dist by (auto simp: credited_capacity_Some)
  qed
  then have "\<forall>sb \<in> set (std_sort ?sizes). \<exists>p b f. GetBlob w (snd sb) = Some p \<and>
             heap_at (blobs st) p = Some b \<and> reg (meta_id b) = Some f"
    by (metis GetBlob_local)
  from print_lines_ok [OF this, of ?total] obtain ls where
    printed: "print_lines reg w st ?total (std_sort ?sizes) = Inr ls"
    and keys: "map ?key ls = std_sort ?sizes"
    and pct: "\<forall>l \<in> set ls. line_percentage l =
       (if 0 < ?total then Ratio_percent (line_capacity l) ?total else Zero_percent)"
    by blast
  have out: "PrintBlobSizes std_sort reg w st =
      Inr ([Header ''---- Workspace blobs: ---- '',
            Header ''name;current shape;capacity bytes;percentage''] @ ls @
           [Total_line ?total])"
    by (simp add: PrintBlobSizes_def first printed)
  have multiset: "mset (map ?key ls) = mset ?sizes"
    using keys perm by simp
  have "sorted_wrt (\<lambda>a b. fst b \<le> fst a) (map ?key ls)"
    using desc keys by (simp add: larger_first_def not_less)
  then have ranked: "sorted_wrt (\<lambda>a b. b \<le> a) (map line_capacity ls)"
    by (simp add: sorted_wrt_map)
  have credited: "\<forall>l \<in> set ls. \<exists>p b f.
       map_of (blob_map w) (line_name l) = Some p \<and> heap_at (blobs st) p = Some b \<and>
       reg (meta_id b) = Some f \<and>
       line_capacity l = (if fst (snd (f (raw b))) then 0 else snd (snd (f (raw b))))"
  proof
    fix l assume "l \<in> set ls"
    then have "?key l \<in> set (map ?key ls)" by auto
    then have "?key l \<in> set (std_sort ?sizes)" using keys by simp
    from known [OF this] show "\<exists>p b f.
       map_of (blob_map w) (line_name l) = Some p \<and> heap_at (blobs st) p = Some b \<and>
       reg (meta_id b) = Some f \<and>
       line_capacity l = (if fst (snd (f (raw b))) then 0 else snd (snd (f (raw b))))"
      by simp
  qed
  have percent: "\<forall>l \<in> set ls. line_percentage l =
       (if ?total = 0 then Zero_percent else Ratio_percent (line_capacity l) ?total)"
    using pct by (simp add: word_gt_0)
  from out multiset ranked credited percent show ?thesis
    by blast
qed



text \<open>
  Capacities 10, 30, 40 (shared) and 60, and a blob with no shape function, sorted as
  libstdc++ sorts: the total is 100, the lines are 60, 30, 10 and 0 for the sharing
  blob, and the last blob has no line.
\<close>

theorem C9_report_ranking_witness:
  "local_blobs_live
     (Workspace [(''a'', 0), (''b'', 1), (''c'', 2), (''d'', 3), (''e'', 4)] [] None None)
     \<lparr>blobs = [Some \<lparr>meta_id = 1, raw = Some (10 :: size_t)\<rparr>, Some \<lparr>meta_id = 1, raw = Some 30\<rparr>,
               Some \<lparr>meta_id = 2, raw = Some 40\<rparr>, Some \<lparr>meta_id = 1, raw = Some 60\<rparr>,
               Some \<lparr>meta_id = 0, raw = None\<rparr>],
      nets = ([] :: nat option list), pools = [], events = []\<rparr> \<and>
   credited_sizes example_shapes
     \<lparr>blobs = [Some \<lparr>meta_id = 1, raw = Some (10 :: size_t)\<rparr>, Some \<lparr>meta_id = 1, raw = Some 30\<rparr>,
               Some \<lparr>meta_id = 2, raw = Some 40\<rparr>, Some \<lparr>meta_id = 1, raw = Some 60\<rparr>,
               Some \<lparr>meta_id = 0, raw = None\<rparr>],
      nets = ([] :: nat option list), pools = [], events = []\<rparr>
     [(''a'', 0), (''b'', 1), (''c'', 2), (''d'', 3), (''e'', 4)] =
     [(10, ''a''), (30, ''b''), (0, ''c''), (60, ''d'')] \<and>
   libstdcxx_sort partial_sort_unreached larger_first
     [(10, ''a''), (30, ''b''), (0, ''c''), (60, ''d'')] =
     [(60, ''d''), (30, ''b''), (10, ''a''), (0, ''c'')] \<and>
   std_sort_post [(10, ''a''), (30, ''b''), (0, ''c''), (60, ''d'')]
     [(60, ''d''), (30, ''b''), (10, ''a''), (0, ''c'')] \<and>
   PrintBlobSizes (libstdcxx_sort partial_sort_unreached larger_first) example_shapes
     (Workspace [(''a'', 0), (''b'', 1), (''c'', 2), (''d'', 3), (''e'', 4)] [] None None)
     \<lparr>blobs = [Some \<lparr>meta_id = 1, raw = Some (10 :: size_t)\<rparr>, Some \<lparr>meta_id = 1, raw = Some 30\<rparr>,
               Some \<lparr>meta_id = 2, raw = Some 40\<rparr>, Some \<lparr>meta_id = 1, raw = Some 60\<rparr>,
               Some \<lparr>meta_id = 0, raw = None\<rparr>],
      nets = ([] :: nat option list), pools = [], events = []\<rparr> =
     Inr [Header ''---- Workspace blobs: ---- '',
          Header ''name;current shape;capacity bytes;percentage'',
          Blob_line ''d'' [] 60 (Ratio_percent 60 100),
          Blob_line ''b'' [] 30 (Ratio_percent 30 100),
          Blob_line ''a'' [] 10 (Ratio_percent 10 100),
          Blob_line ''c'' [] 0 (Ratio_percent 0 100),
          Total_line 100]"
proof -
  let ?m = "[(''a'', 0), (''b'', 1), (''c'', 2), (''d'', 3), (''e'', 4)]"
  let ?w = "Workspace ?m [] None None"
  let ?st = "\<lparr>blobs = [Some \<lparr>meta_id = 1, raw = Some (10 :: size_t)\<rparr>,
               Some \<lparr>meta_id = 1, raw = Some 30\<rparr>,
               Some \<lparr>meta_id = 2, raw = Some 40\<rparr>, Some \<lparr>meta_id = 1, raw = Some 60\<rparr>,
               Some \<lparr>meta_id = 0, raw = None\<rparr>],
      nets = ([] :: nat option list), pools = [], events = []\<rparr>"
  let ?sizes = "[(10 :: size_t, ''a''), (30, ''b''), (0, ''c''), (60, ''d'')]"
  let ?sorted = "[(60 :: size_t, ''d''), (30, ''b''), (10, ''a''), (0, ''c'')]"
  let ?sort = "libstdcxx_sort partial_sort_unreached larger_first"
  have h1: "local_blobs_live ?w ?st"
    by (simp add: local_blobs_live_def heap_at_def)
  have sizes: "credited_sizes example_shapes ?st ?m = ?sizes"
    by (simp add: credited_sizes_def credited_capacity_def example_shapes_def heap_at_def)
  have sorted: "?sort ?sizes = ?sorted"
    by code_simp
  have post: "std_sort_post ?sizes ?sorted"
    by (simp add: std_sort_post_def larger_first_def)
  have h2: "std_sort_post (credited_sizes example_shapes ?st (blob_map ?w))
              (?sort (credited_sizes example_shapes ?st (blob_map ?w)))"
    using sizes sorted post by simp
  have total: "sum_list (map fst ?sizes) = 100"
    by simp
  from C9_report_ranking [where std_sort = ?sort and reg = example_shapes, OF h1 h2]
  obtain ls where
    out: "PrintBlobSizes ?sort example_shapes ?w ?st =
            Inr ([Header ''---- Workspace blobs: ---- '',
                  Header ''name;current shape;capacity bytes;percentage''] @ ls @
                 [Total_line (sum_list (map fst (credited_sizes example_shapes ?st (blob_map ?w))))])"
    by blast
  have run: "PrintBlobSizes ?sort example_shapes ?w ?st =
     Inr [Header ''---- Workspace blobs: ---- '',
          Header ''name;current shape;capacity bytes;percentage'',
          Blob_line ''d'' [] 60 (Ratio_percent 60 100),
          Blob_line ''b'' [] 30 (Ratio_percent 30 100),
          Blob_line ''a'' [] 10 (Ratio_percent 10 100),
          Blob_line ''c'' [] 0 (Ratio_percent 0 100),
          Total_line 100]"
    by (simp add: PrintBlobSizes_def LocalBlobs_eq heap_at_def example_shapes_def sorted)
  from h1 sizes sorted post run out show ?thesis
    by simp
qed

text \<open>
  C9 as stated fails on ties: seventeen blobs \<open>a\<close> to \<open>q\<close>, met in this order, all
  of capacity 5. The sort of libstdc++ takes a range of more than 16 elements through
  one partition, which swaps the first element with the middle one and then the outer
  pairs of the rest, and equal elements are not moved back: the report starts with
  \<open>i\<close> and \<open>q\<close> and ends with \<open>b\<close>. The result is one that \<open>std::sort\<close> may give,
  and the fallback heap sort has not been called.
\<close>

theorem C9_ties_not_in_encounter_order:
  "LocalBlobs (Workspace [(''a'', 0), (''b'', 1), (''c'', 2), (''d'', 3), (''e'', 4), (''f'', 5), (''g'', 6),
      (''h'', 7), (''i'', 8), (''j'', 9), (''k'', 10), (''l'', 11), (''m'', 12), (''n'',
      13), (''o'', 14), (''p'', 15), (''q'', 16)] [] None None) =
     [''a'', ''b'', ''c'', ''d'', ''e'', ''f'', ''g'', ''h'', ''i'', ''j'', ''k'', ''l'',
      ''m'', ''n'', ''o'', ''p'', ''q''] \<and>
   credited_sizes example_shapes
     \<lparr>blobs = replicate 17 (Some \<lparr>meta_id = 1, raw = Some (5 :: size_t)\<rparr>),
      nets = ([] :: nat option list), pools = [], events = []\<rparr>
     [(''a'', 0), (''b'', 1), (''c'', 2), (''d'', 3), (''e'', 4), (''f'', 5), (''g'', 6),
      (''h'', 7), (''i'', 8), (''j'', 9), (''k'', 10), (''l'', 11), (''m'', 12), (''n'',
      13), (''o'', 14), (''p'', 15), (''q'', 16)] =
     [(5, ''a''), (5, ''b''), (5, ''c''), (5, ''d''), (5, ''e''), (5, ''f''), (5, ''g''),
      (5, ''h''), (5, ''i''), (5, ''j''), (5, ''k''), (5, ''l''), (5, ''m''), (5, ''n''),
      (5, ''o''), (5, ''p''), (5, ''q'')] \<and>
   libstdcxx_sort partial_sort_unreached larger_first
     [(5, ''a''), (5, ''b''), (5, ''c''), (5, ''d''), (5, ''e''), (5, ''f''), (5, ''g''),
      (5, ''h''), (5, ''i''), (5, ''j''), (5, ''k''), (5, ''l''), (5, ''m''), (5, ''n''),
      (5, ''o''), (5, ''p''), (5, ''q'')] =
     [(5, ''i''), (5, ''q''), (5, ''p''), (5, ''o''), (5, ''n''), (5, ''m''), (5, ''l''),
      (5, ''k''), (5, ''j''), (5, ''a''), (5, ''h''), (5, ''g''), (5, ''f''), (5, ''e''),
      (5, ''d''), (5, ''c''), (5, ''b'')] \<and>
   std_sort_post
     [(5, ''a''), (5, ''b''), (5, ''c''), (5, ''d''), (5, ''e''), (5, ''f''), (5, ''g''),
      (5, ''h''), (5, ''i''), (5, ''j''), (5, ''k''), (5, ''l''), (5, ''m''), (5, ''n''),
      (5, ''o''), (5, ''p''), (5, ''q'')]
     [(5, ''i''), (5, ''q''), (5, ''p''), (5, ''o''), (5, ''n''), (5, ''m''), (5, ''l''),
      (5, ''k''), (5, ''j''), (5, ''a''), (5, ''h''), (5, ''g''), (5, ''f''), (5, ''e''),
      (5, ''d''), (5, ''c''), (5, ''b'')] \<and>
   PrintBlobSizes (libstdcxx_sort partial_sort_unreached larger_first) example_shapes
     (Workspace [(''a'', 0), (''b'', 1), (''c'', 2), (''d'', 3), (''e'', 4), (''f'', 5), (''g'', 6),
      (''h'', 7), (''i'', 8), (''j'', 9), (''k'', 10), (''l'', 11), (''m'', 12), (''n'',
      13), (''o'', 14), (''p'', 15), (''q'', 16)] [] None None)
     \<lparr>blobs = replicate 17 (Some \<lparr>meta_id = 1, raw = Some (5 :: size_t)\<rparr>),
      nets = ([] :: nat option list), pools = [], events = []\<rparr> =
     Inr [Header ''---- Workspace blobs: ---- '',
          Header ''name;current shape;capacity bytes;percentage'',
          Blob_line ''i'' [] 5 (Ratio_percent 5 85),
          Blob_line ''q'' [] 5 (Ratio_percent 5 85),
          Blob_line ''p'' [] 5 (Ratio_percent 5 85),
          Blob_line ''o'' [] 5 (Ratio_percent 5 85),
          Blob_line ''n'' [] 5 (Ratio_percent 5 85),
          Blob_line ''m'' [] 5 (Ratio_percent 5 85),
          Blob_line ''l'' [] 5 (Ratio_percent 5 85),
          Blob_line ''k'' [] 5 (Ratio_percent 5 85),
          Blob_line ''j'' [] 5 (Ratio_percent 5 85),
          Blob_line ''a'' [] 5 (Ratio_percent 5 85),
          Blob_line ''h'' [] 5 (Ratio_percent 5 85),
          Blob_line ''g'' [] 5 (Ratio_percent 5 85),
          Blob_line ''f'' [] 5 (Ratio_percent 5 85),
          Blob_line ''e'' [] 5 (Ratio_percent 5 85),
          Blob_line ''d'' [] 5 (Ratio_percent 5 85),
          Blob_line ''c'' [] 5 (Ratio_percent 5 85),
          Blob_line ''b'' [] 5 (Ratio_percent 5 85),
          Total_line 85]"
proof -
  let ?m = "[(''a'', 0), (''b'', 1), (''c'', 2), (''d'', 3), (''e'', 4), (''f'', 5), (''g'', 6),
      (''h'', 7), (''i'', 8), (''j'', 9), (''k'', 10), (''l'', 11), (''m'', 12), (''n'',
      13), (''o'', 14), (''p'', 15), (''q'', 16)]"
  let ?st = "\<lparr>blobs = replicate 17 (Some \<lparr>meta_id = 1, raw = Some (5 :: size_t)\<rparr>),
      nets = ([] :: nat option list), pools = [], events = []\<rparr>"
  let ?sizes = "[(5, ''a''), (5, ''b''), (5, ''c''), (5, ''d''), (5, ''e''), (5, ''f''), (5, ''g''),
      (5, ''h''), (5, ''i''), (5, ''j''), (5, ''k''), (5, ''l''), (5, ''m''), (5, ''n''),
      (5, ''o''), (5, ''p''), (5, ''q'')] :: (size_t \<times> string) list"
  let ?sorted = "[(5, ''i''), (5, ''q''), (5, ''p''), (5, ''o''), (5, ''n''), (5, ''m''), (5, ''l''),
      (5, ''k''), (5, ''j''), (5, ''a''), (5, ''h''), (5, ''g''), (5, ''f''), (5, ''e''),
      (5, ''d''), (5, ''c''), (5, ''b'')] :: (size_t \<times> string) list"
  let ?sort = "libstdcxx_sort partial_sort_unreached larger_first"
  have names: "LocalBlobs (Workspace ?m [] None None) =
     [''a'', ''b'', ''c'', ''d'', ''e'', ''f'', ''g'', ''h'', ''i'', ''j'', ''k'', ''l'',
      ''m'', ''n'', ''o'', ''p'', ''q'']"
    by (simp add: LocalBlobs_eq)
  have sizes: "credited_sizes example_shapes ?st ?m = ?sizes"
    by code_simp
  have sorted: "?sort ?sizes = ?sorted"
    by code_simp
  have post: "std_sort_post ?sizes ?sorted"
    by code_simp
  have run: "PrintBlobSizes ?sort example_shapes (Workspace ?m [] None None) ?st =
     Inr [Header ''---- Workspace blobs: ---- '',
          Header ''name;current shape;capacity bytes;percentage'',
          Blob_line ''i'' [] 5 (Ratio_percent 5 85),
          Blob_line ''q'' [] 5 (Ratio_percent 5 85),
          Blob_line ''p'' [] 5 (Ratio_percent 5 85),
          Blob_line ''o'' [] 5 (Ratio_percent 5 85),
          Blob_line ''n'' [] 5 (Ratio_percent 5 85),
          Blob_line ''m'' [] 5 (Ratio_percent 5 85),
          Blob_line ''l'' [] 5 (Ratio_percent 5 85),
          Blob_line ''k'' [] 5 (Ratio_percent 5 85),
          Blob_line ''j'' [] 5 (Ratio_percent 5 85),
          Blob_line ''a'' [] 5 (Ratio_percent 5 85),
          Blob_line ''h'' [] 5 (Ratio_percent 5 85),
          Blob_line ''g'' [] 5 (Ratio_percent 5 85),
          Blob_line ''f'' [] 5 (Ratio_percent 5 85),
          Blob_line ''e'' [] 5 (Ratio_percent 5 85),
          Blob_line ''d'' [] 5 (Ratio_percent 5 85),
          Blob_line ''c'' [] 5 (Ratio_percent 5 85),
          Blob_line ''b'' [] 5 (Ratio_percent 5 85),
          Total_line 85]"
    by code_simp
  from names sizes sorted post run show ?thesis
    by (simp only: simp_thms)
qed

end
